theory Spec2Isabelle
  imports Complex_Main "HOL-Library.Word" "HOL-Library.AList"
begin

unbundle bit_operations_syntax

section \<open>JavaScript values and errors\<close>

text \<open>
  The values that reach the modelled functions. Numbers are modelled by reals (NaN and
  the infinities are left out). An object is the ordered list of its own enumerable
  string-keyed properties, which is what \<^verbatim>\<open>Object.entries\<close> walks. Typed arrays and
  WasmArrays are objects too (\<^verbatim>\<open>x instanceof Object\<close> holds for them), so they are
  \<open>JObject\<close> values here.
\<close>

datatype js_value =
    JUndefined
  | JNull
  | JNumber real
  | JString string
  | JBoolean bool
  | JArray "js_value list"
  | JObject "(string \<times> js_value) list"

text \<open>An uncaught exception, by the constructor that made it and its message or the
  name it could not resolve.\<close>

datatype js_error =
    ReferenceError string
  | TypeError string
  | Error string

text \<open>How a call of a method ends for a caller that awaits it: it returns (and the promise
  it may return is fulfilled), it throws, or it returns a promise that is rejected.\<close>

datatype completion = Returned | Threw js_error | Rejected js_error

section \<open>src/dump/List.js\<close>

text \<open>
  \<^verbatim>\<open>output\<close> of \<^verbatim>\<open>dump_internal\<close>: the type tag, the values and, for a named list, the
  names. A value is a primitive stored as it is, or the file object \<^verbatim>\<open>dumpList\<close>
  returned for a property of an object. The gzip of the JSON text is modelled by the
  dumped value it encodes.
\<close>

datatype dump_output = DumpOutput (dump_type: string) (dump_values: "dump_entry list")
    (dump_names: "string list option")
and dump_entry = Primitive js_value | DumpFile string dump_output

text \<open>The loop of lines 13-21: one pass over the elements, updating both flags.\<close>

fun typeof :: "js_value \<Rightarrow> string" where
  "typeof JUndefined = ''undefined''"
| "typeof JNull = ''object''"
| "typeof (JNumber x) = ''number''"
| "typeof (JString x) = ''string''"
| "typeof (JBoolean x) = ''boolean''"
| "typeof (JArray x) = ''object''"
| "typeof (JObject x) = ''object''"

fun scan_flags :: "js_value list \<Rightarrow> bool \<times> bool \<Rightarrow> bool \<times> bool" where
  "scan_flags [] flags = flags"
| "scan_flags (e # es) (all_strings, all_bools) =
     (if e \<noteq> JNull then
        (if typeof e \<noteq> ''string'' then scan_flags es (False, all_bools)
         else if typeof e \<noteq> ''boolean'' then scan_flags es (all_strings, False)
         else scan_flags es (all_strings, all_bools))
      else scan_flags es (all_strings, all_bools))"

text \<open>\<^verbatim>\<open>path + "/simple.json.gz"\<close>, where an undefined \<^verbatim>\<open>path\<close> prints as "undefined".\<close>

definition simple_path :: "string option \<Rightarrow> string" where
  "simple_path path = (case path of None \<Rightarrow> ''undefined'' | Some p \<Rightarrow> p) @ ''/simple.json.gz''"

text \<open>
  \<^verbatim>\<open>dump_internal\<close>, branch by branch in the source's order. In the array branch all three
  arms read the variable \<^verbatim>\<open>v\<close>, which no scope declares; in the last branch the message
  reads \<^verbatim>\<open>k\<close>, which is declared only inside the loop of the object branch. The module is
  an ES module (strict code), so each read throws a ReferenceError. \<open>dump_properties\<close> is
  the loop over \<^verbatim>\<open>Object.entries(x)\<close>, which calls \<^verbatim>\<open>dumpList(v)\<close> with no path.
\<close>

fun dump_internal :: "js_value \<Rightarrow> js_error + dump_output"
and dump_properties :: "(string \<times> js_value) list \<Rightarrow> js_error + (string list \<times> dump_entry list)"
where
  "dump_internal (JArray x) =
     (if x \<noteq> [] then
        (let (all_strings, all_bools) = scan_flags x (True, True) in
         if all_strings then Inl (ReferenceError ''v'')
         else if all_bools then Inl (ReferenceError ''v'')
         else Inl (ReferenceError ''v''))
      else Inr (DumpOutput ''list'' [] None))"
| "dump_internal (JObject x) =
     (case dump_properties x of
        Inl e \<Rightarrow> Inl e
      | Inr (names, vals) \<Rightarrow> Inr (DumpOutput ''list'' vals (Some names)))"
| "dump_internal (JNumber x) = Inr (DumpOutput ''number'' [Primitive (JNumber x)] None)"
| "dump_internal (JString x) = Inr (DumpOutput ''string'' [Primitive (JString x)] None)"
| "dump_internal (JBoolean x) = Inr (DumpOutput ''boolean'' [Primitive (JBoolean x)] None)"
| "dump_internal JUndefined = Inl (ReferenceError ''k'')"
| "dump_internal JNull = Inl (ReferenceError ''k'')"
| "dump_properties [] = Inr ([], [])"
| "dump_properties ((k, v) # rest) =
     (case dump_internal v of
        Inl e \<Rightarrow> Inl e
      | Inr vals \<Rightarrow>
          (case dump_properties rest of
             Inl e \<Rightarrow> Inl e
           | Inr (names, entries) \<Rightarrow>
               Inr (k # names, DumpFile (simple_path None) vals # entries)))"

definition dumpList :: "js_value \<Rightarrow> string option \<Rightarrow> js_error + dump_entry" where
  "dumpList x path =
     (case dump_internal x of
        Inl e \<Rightarrow> Inl e
      | Inr vals \<Rightarrow> Inr (DumpFile (simple_path path) vals))"

section \<open>src/readers/utils/features.js\<close>

text \<open>
  \<^verbatim>\<open>x.length\<close> and \<^verbatim>\<open>x[i]\<close> for the values \<^verbatim>\<open>is_subset_noop\<close> can be handed: reading a
  property of \<^verbatim>\<open>undefined\<close> or \<^verbatim>\<open>null\<close> throws a TypeError; a string has its number of
  characters as length and one-character strings as elements; an array has its elements;
  anything else has neither (the named property is looked up for an object).
\<close>

fun js_length :: "js_value \<Rightarrow> js_error + js_value" where
  "js_length JUndefined = Inl (TypeError ''length'')"
| "js_length JNull = Inl (TypeError ''length'')"
| "js_length (JString s) = Inr (JNumber (real (length s)))"
| "js_length (JArray xs) = Inr (JNumber (real (length xs)))"
| "js_length (JObject ps) = Inr (case map_of ps ''length'' of None \<Rightarrow> JUndefined | Some v \<Rightarrow> v)"
| "js_length (JNumber x) = Inr JUndefined"
| "js_length (JBoolean x) = Inr JUndefined"

fun js_index :: "js_value \<Rightarrow> nat \<Rightarrow> js_value" where
  "js_index (JString s) i = (if i < length s then JString [s ! i] else JUndefined)"
| "js_index (JArray xs) i = (if i < length xs then xs ! i else JUndefined)"
| "js_index x i = JUndefined"

text \<open>
  The loop of \<^verbatim>\<open>is_subset_noop\<close> (lines 25-29), from index \<open>i\<close>. \<^verbatim>\<open>i !== indices[i]\<close>
  is strict inequality of the number \<open>i\<close> and the element: a string or \<^verbatim>\<open>undefined\<close> is
  never strictly equal to a number.
\<close>

function noop_loop :: "js_value \<Rightarrow> nat \<Rightarrow> nat \<Rightarrow> bool" where
  "noop_loop indices i full_length =
     (if i < full_length then
        (if JNumber (real i) \<noteq> js_index indices i then False
         else noop_loop indices (Suc i) full_length)
      else True)"
  by pat_completeness auto
termination
  by (relation "measure (\<lambda>(indices, i, full_length). full_length - i)") auto

declare noop_loop.simps [simp del]

definition is_subset_noop :: "js_value \<Rightarrow> nat \<Rightarrow> js_error + bool" where
  "is_subset_noop indices full_length =
     (case js_length indices of
        Inl e \<Rightarrow> Inl e
      | Inr len \<Rightarrow>
          if len \<noteq> JNumber (real full_length) then Inr False
          else Inr (noop_loop indices 0 full_length))"

text \<open>
  \<^verbatim>\<open>bioc.presplitFactor\<close> (package bioconductor): an object with one property per level of the
  factor, in order of first appearance, holding the positions of that level in increasing
  order. \<open>add_level\<close> is one step of its loop.
\<close>

fun add_level :: "string \<Rightarrow> nat \<Rightarrow> (string \<times> nat list) list \<Rightarrow> (string \<times> nat list) list" where
  "add_level x i [] = [(x, [i])]"
| "add_level x i ((k, positions) # rest) =
     (if k = x then (k, positions @ [i]) # rest else (k, positions) # add_level x i rest)"

fun presplit_from :: "string list \<Rightarrow> nat \<Rightarrow> (string \<times> nat list) list \<Rightarrow> (string \<times> nat list) list" where
  "presplit_from [] i by_level = by_level"
| "presplit_from (x # xs) i by_level = presplit_from xs (Suc i) (add_level x i by_level)"

definition presplitFactor :: "string list \<Rightarrow> (string \<times> nat list) list" where
  "presplitFactor factor = presplit_from factor 0 []"

text \<open>
  A matrix handle in the result: the loaded matrix itself (the object that was passed in,
  only renamed inside the MultiMatrix), or a new matrix that \<^verbatim>\<open>scran.splitRows\<close> allocated
  for the given rows of the loaded one.
\<close>

datatype scran_matrix = LoadedMatrix | SplitRows "nat list"

text \<open>
  The arguments of \<^verbatim>\<open>splitScranMatrixAndFeatures\<close> that decide its result:
  the number of rows of \<^verbatim>\<open>loaded.matrix\<close>; \<^verbatim>\<open>loaded.row_ids\<close> (or null); the column
  \<^verbatim>\<open>typeField\<close> of \<^verbatim>\<open>rawFeatures\<close>, absent when \<^verbatim>\<open>typeField\<close> is null or no such column
  exists; \<^verbatim>\<open>featureTypeMapping\<close> (or null), whose entries map a modality to a feature type
  or to null; \<^verbatim>\<open>featureTypeDefault\<close>.
\<close>

record split_input =
  numberOfRows :: nat
  loaded_row_ids :: "nat list option"
  raw_type_column :: "string list option"
  featureTypeMapping :: "(string \<times> string option) list option"
  featureTypeDefault :: string

text \<open>The result: the MultiMatrix and the row identifiers per modality (the feature
  tables are split by the same groups as the row identifiers).\<close>

record split_output =
  out_matrix :: "(string \<times> scran_matrix) list"
  out_row_ids :: "(string \<times> nat list) list"

text \<open>Lines 53-58: the groups of the mapped feature types, under the modality names.\<close>

fun select_mapped :: "(string \<times> string option) list \<Rightarrow> (string \<times> nat list) list \<Rightarrow> (string \<times> nat list) list" where
  "select_mapped [] by_type = []"
| "select_mapped ((k, v) # rest) by_type =
     (case v of
        None \<Rightarrow> select_mapped rest by_type
      | Some t \<Rightarrow>
          (case map_of by_type t of
             None \<Rightarrow> select_mapped rest by_type
           | Some positions \<Rightarrow> (k, positions) # select_mapped rest by_type))"

text \<open>
  \<^verbatim>\<open>splitScranMatrixAndFeatures\<close>. \<^verbatim>\<open>type_keys[0]\<close> is the first KEY of \<^verbatim>\<open>by_type\<close>, a
  string (or \<^verbatim>\<open>undefined\<close> when there is no group), and that is what line 63 hands to
  \<^verbatim>\<open>is_subset_noop\<close>. An exception is rethrown by the catch block of line 82.
\<close>

definition splitScranMatrixAndFeatures :: "split_input \<Rightarrow> js_error + split_output" where
  "splitScranMatrixAndFeatures inp =
     (let out_ids = (case loaded_row_ids inp of
                       Some ids \<Rightarrow> ids
                     | None \<Rightarrow> [0 ..< numberOfRows inp]);
          current_column = (case loaded_row_ids inp of
                              Some ids \<Rightarrow> map_option (\<lambda>col. map (\<lambda>i. col ! i) ids) (raw_type_column inp)
                            | None \<Rightarrow> raw_type_column inp)
      in case current_column of
           Some col \<Rightarrow>
             (let by_type0 = presplitFactor col;
                  by_type = (case featureTypeMapping inp of
                               None \<Rightarrow> by_type0
                             | Some m \<Rightarrow> select_mapped m by_type0);
                  type_keys = map fst by_type;
                  key0 = (case type_keys of [] \<Rightarrow> JUndefined | k # ks \<Rightarrow> JString k)
              in case is_subset_noop key0 (numberOfRows inp) of
                   Inl e \<Rightarrow> Inl e
                 | Inr skip_subset \<Rightarrow>
                     Inr \<lparr> out_matrix =
                             (if length type_keys > 1 \<or> \<not> skip_subset
                              then map (\<lambda>(k, positions). (k, SplitRows positions)) by_type
                              else [(hd type_keys, LoadedMatrix)]),
                           out_row_ids = map (\<lambda>(k, positions). (k, map (\<lambda>i. out_ids ! i) positions)) by_type \<rparr>)
         | None \<Rightarrow>
             Inr \<lparr> out_matrix = [(featureTypeDefault inp, LoadedMatrix)],
                   out_row_ids = [(featureTypeDefault inp, out_ids)] \<rparr>)"

section \<open>Feature set enrichment: FeatureSetManager.computeEnrichment\<close>

text \<open>
  The fields of the manager's cache that \<^verbatim>\<open>computeEnrichment\<close> reads: the universe (row
  indices of the mapped genes, sorted), the sets of each gene, the size of each set.
\<close>

record manager_cache =
  universe :: "nat list"
  mapping_to_sets :: "nat list list"
  set_sizes :: "nat list"

text \<open>
  The collaborators: \<^verbatim>\<open>markers\<close>, an object whose methods are looked up by name and take
  the group and the summary index (\<^verbatim>\<open>undefined\<close> for a summary that
  \<^verbatim>\<open>summaries2int\<close> does not list); \<^verbatim>\<open>scran.computeTopThreshold\<close>;
  \<^verbatim>\<open>gesel.countSetOverlaps\<close>, giving a set identifier and a count per overlapping set;
  \<^verbatim>\<open>gesel.testEnrichment\<close>.
\<close>

record enrichment_collaborators =
  markers :: "string \<Rightarrow> (nat \<Rightarrow> nat option \<Rightarrow> real list) option"
  computeTopThreshold :: "real list \<Rightarrow> nat \<Rightarrow> bool \<Rightarrow> real"
  countSetOverlaps :: "nat list list \<Rightarrow> (nat \<times> nat) list"
  testEnrichment :: "nat \<Rightarrow> nat \<Rightarrow> nat \<Rightarrow> nat \<Rightarrow> real"

record enrichment_result =
  set_ids :: "nat list"
  counts :: "nat list"
  pvalues :: "real list"
  num_markers :: nat

text \<open>\<^verbatim>\<open>mutils.summaries2int\<close> (steps/utils/markers.js, line 3).\<close>

definition summaries2int :: "string \<Rightarrow> nat option" where
  "summaries2int summary =
     (if summary = ''min'' then Some 0
      else if summary = ''mean'' then Some 1
      else if summary = ''min_rank'' then Some 4
      else None)"

text \<open>
  The two selection loops of lines 214-229: the sets of every universe gene whose
  statistic passes the threshold, in universe order. The genes of the universe are rows of
  the feature table (\<^verbatim>\<open>prepare\<close> collects them from the positions of the gene mapping).
\<close>

definition select_in_set :: "manager_cache \<Rightarrow> real list \<Rightarrow> (real \<Rightarrow> bool) \<Rightarrow> nat list list" where
  "select_in_set c curstats keep =
     map (\<lambda>i. mapping_to_sets c ! (universe c ! i))
       (filter (\<lambda>i. keep (curstats ! i)) [0 ..< length curstats])"

text \<open>
  \<^verbatim>\<open>computeEnrichment(group, effect_size, summary, markers, top_markers)\<close>. Calling a
  method that \<^verbatim>\<open>markers\<close> does not have throws a TypeError. The sort of line 238 is
  ascending in the p-value and stable.
\<close>

definition computeEnrichment ::
  "enrichment_collaborators \<Rightarrow> manager_cache \<Rightarrow> nat \<Rightarrow> string \<Rightarrow> string \<Rightarrow> nat
     \<Rightarrow> js_error + enrichment_result" where
  "computeEnrichment ext c grp effect_size0 summary top_markers =
     (let effect_size = (if effect_size0 = ''delta_detected'' then ''deltaDetected'' else effect_size0);
          min_threshold = (if effect_size = ''auc'' then 0.5 else 0);
          use_largest = (effect_size \<noteq> ''min_rank'');
          sumidx = summaries2int summary
      in case markers ext effect_size of
           None \<Rightarrow> Inl (TypeError effect_size)
         | Some stats_of \<Rightarrow>
             (let stats = stats_of grp sumidx;
                  curstats = map (\<lambda>g. stats ! g) (universe c);
                  threshold0 = computeTopThreshold ext curstats top_markers use_largest;
                  in_set =
                    (if use_largest then
                       (let threshold = (if threshold0 < min_threshold then min_threshold else threshold0)
                        in select_in_set c curstats (\<lambda>x. x \<ge> threshold))
                     else select_in_set c curstats (\<lambda>x. x \<le> threshold0));
                  num_top = length in_set;
                  overlaps = map (\<lambda>(sid, cnt). (sid, cnt,
                                  testEnrichment ext cnt num_top (set_sizes c ! sid) (length (universe c))))
                               (countSetOverlaps ext in_set);
                  sorted_overlaps = sort_key (\<lambda>(sid, cnt, pvalue). pvalue) overlaps
              in Inr \<lparr> set_ids = map (\<lambda>(sid, cnt, pvalue). sid) sorted_overlaps,
                       counts = map (\<lambda>(sid, cnt, pvalue). cnt) sorted_overlaps,
                       pvalues = map (\<lambda>(sid, cnt, pvalue). pvalue) sorted_overlaps,
                       num_markers = num_top \<rparr>))"

text \<open>
  The collaborators as the libraries document them, for running the method on small
  data: \<^verbatim>\<open>scran.computeTopThreshold\<close> gives the statistic of rank \<open>n\<close> counted from the
  largest (or from the smallest) one; \<^verbatim>\<open>gesel.countSetOverlaps\<close> gives each set that
  holds a selected gene with the number of selected genes it holds.
\<close>

definition top_threshold :: "real list \<Rightarrow> nat \<Rightarrow> bool \<Rightarrow> real" where
  "top_threshold x n largest =
     (let s = (if largest then rev (sort x) else sort x) in s ! (min n (length s) - 1))"

definition count_overlaps :: "nat list list \<Rightarrow> (nat \<times> nat) list" where
  "count_overlaps in_set =
     map (\<lambda>sid. (sid, count_list (concat in_set) sid)) (remdups (concat in_set))"

text \<open>
  A marker result for three genes with the four effect-size methods of
  \<^verbatim>\<open>ScoreMarkersResults\<close>: under the summary \<^verbatim>\<open>min_rank\<close> (index 4) gene 0 has rank 1,
  gene 1 rank 2 and gene 2 rank 3, so gene 0 is the best marker.
\<close>

definition three_gene_markers :: "string \<Rightarrow> (nat \<Rightarrow> nat option \<Rightarrow> real list) option" where
  "three_gene_markers name =
     (if name \<in> set [''cohen'', ''auc'', ''lfc'', ''deltaDetected'']
      then Some (\<lambda>grp sumidx. if sumidx = Some 4 then [1, 2, 3] else [3, 2, 1])
      else None)"

section \<open>Step states\<close>

text \<open>
  An object on the Wasm heap that its owner releases with \<^verbatim>\<open>free()\<close>: the identity of
  the allocation, and whether it has been released. A released object stays where it was
  stored until the property is overwritten or deleted.
\<close>

record wasm_object =
  object_id :: nat
  released :: bool

text \<open>
  Modelled from the spec: \<^verbatim>\<open>utils.freeCache\<close> (steps/utils/general.js) is not among the
  sources. The spec names it the explicit release of an owned buffer, safe to repeat; an
  absent (undefined or null) entry is left alone.
\<close>

definition freeCache :: "wasm_object option \<Rightarrow> wasm_object option" where
  "freeCache obj = map_option (\<lambda>x. x\<lparr>released := True\<rparr>) obj"

subsection \<open>src/steps/crispr_pca.js\<close>

text \<open>
  A step object as every state class under src/steps lays it out: the private
  \<^verbatim>\<open>#parameters\<close> object (its properties, empty after \<^verbatim>\<open>new ...State(...)\<close> with null
  parameters), the cached result (\<open>None\<close> when the cache has no such property) and the
  public \<^verbatim>\<open>changed\<close> flag. For CrisprPcaState the cached result is \<^verbatim>\<open>#cache.pcs\<close>.
\<close>

record step_state =
  parameters :: "(string \<times> js_value) list"
  results :: "wasm_object option"
  changed :: bool

text \<open>Reading a property: of \<^verbatim>\<open>undefined\<close> or \<^verbatim>\<open>null\<close> it throws a TypeError, missing
  from an object it is \<^verbatim>\<open>undefined\<close>.\<close>

definition get_property :: "(string \<times> js_value) list \<Rightarrow> string \<Rightarrow> js_value" where
  "get_property props k = (case map_of props k of None \<Rightarrow> JUndefined | Some v \<Rightarrow> v)"

fun js_get :: "js_value \<Rightarrow> string \<Rightarrow> js_error + js_value" where
  "js_get JUndefined k = Inl (TypeError k)"
| "js_get JNull k = Inl (TypeError k)"
| "js_get (JObject props) k = Inr (get_property props k)"
| "js_get x k = Inr JUndefined"

text \<open>The properties of a parameter object.\<close>

definition js_props :: "js_value \<Rightarrow> (string \<times> js_value) list" where
  "js_props v = (case v of JObject props \<Rightarrow> props | _ \<Rightarrow> [])"

text \<open>The constructor with \<^verbatim>\<open>parameters = null\<close> and \<^verbatim>\<open>cache = null\<close>.\<close>

definition new_state :: step_state where
  "new_state = \<lparr> parameters = [], results = None, changed = False \<rparr>"

text \<open>
  The outcome of lines 86-89 for a number of PCs and a block method: an exception of
  \<^verbatim>\<open>this.#filter.fetchFilteredBlock()\<close> or \<^verbatim>\<open>this.#norm.fetchNormalizedMatrix()\<close> (lines
  86-87, before anything in the cache is touched), an exception of \<^verbatim>\<open>scran.runPCA\<close> (line
  89, after line 88 has released the cached result), or the result of \<^verbatim>\<open>scran.runPCA\<close>.
\<close>

datatype pca_outcome = FetchThrows js_error | PcaThrows js_error | PcaReturns wasm_object

text \<open>
  What \<^verbatim>\<open>compute\<close> reads from the two upstream states: \<^verbatim>\<open>this.#norm.changed\<close>,
  \<^verbatim>\<open>this.#norm.valid()\<close>, and under \<open>runPCA\<close> the outcome of lines 86-89.
\<close>

record crispr_pca_upstream =
  norm_changed :: bool
  norm_valid :: bool
  runPCA :: "js_value \<Rightarrow> js_value \<Rightarrow> pca_outcome"

text \<open>
  \<^verbatim>\<open>CrisprPcaState.compute\<close> (lines 80-99). The result is the exception that left the
  method, if any, and the state object as the call left it. Line 81 destructures the
  parameters before line 82 clears the flag. \<^verbatim>\<open>!==\<close> compares the two parameters, numbers
  and strings, by value. The old \<^verbatim>\<open>pcs\<close> is released on line 88, after the two fetches
  and before \<^verbatim>\<open>runPCA\<close> runs on line 89; lines 91-95 are reached only when it returns.
\<close>

definition store_pca_parameters :: "js_value \<Rightarrow> js_value \<Rightarrow> step_state \<Rightarrow> step_state" where
  "store_pca_parameters n_pcs b_method st =
     st\<lparr>parameters := AList.update ''block_method'' b_method
                          (AList.update ''num_pcs'' n_pcs (parameters st))\<rparr>"

definition CrisprPcaState_compute ::
  "crispr_pca_upstream \<Rightarrow> js_value \<Rightarrow> step_state \<Rightarrow> js_error option \<times> step_state" where
  "CrisprPcaState_compute up params st =
     (case js_get params ''num_pcs'' of
        Inl e \<Rightarrow> (Some e, st)
      | Inr n_pcs \<Rightarrow>
          (case js_get params ''block_method'' of
             Inl e \<Rightarrow> (Some e, st)
           | Inr b_method \<Rightarrow>
               (let s0 = st\<lparr>changed := False\<rparr> in
                if norm_changed up \<or> n_pcs \<noteq> get_property (parameters s0) ''num_pcs''
                     \<or> b_method \<noteq> get_property (parameters s0) ''block_method''
                then
                  (if norm_valid up then
                     (case runPCA up n_pcs b_method of
                        FetchThrows e \<Rightarrow> (Some e, s0)
                      | PcaThrows e \<Rightarrow> (Some e, s0\<lparr>results := freeCache (results s0)\<rparr>)
                      | PcaReturns res \<Rightarrow>
                          (None, store_pca_parameters n_pcs b_method
                                   (s0\<lparr>results := Some res, changed := True\<rparr>)))
                   else (None, store_pca_parameters n_pcs b_method s0))
                else (None, s0))))"

subsection \<open>The cell filtering step: CellFilteringState (src/analysis.js, from line 492)\<close>

datatype modality = RNA | ADT | CRISPR

text \<open>
  An upstream quality control state, as \<^verbatim>\<open>compute\<close> sees it: \<^verbatim>\<open>valid()\<close>,
  \<^verbatim>\<open>changed\<close> and the bytes of the Uint8WasmArray that \<^verbatim>\<open>fetchDiscards()\<close> returns.
\<close>

record qc_state =
  qc_valid :: bool
  qc_changed :: bool
  qc_discards :: "8 word list"

text \<open>
  Modelled from the spec: \<^verbatim>\<open>utils.findValidUpstreamStates\<close> (steps/utils/general.js) is
  not among the sources. It gives the keys of the upstream states that are valid, in the
  order of the object \<^verbatim>\<open>{ RNA, ADT, CRISPR }\<close> built in \<^verbatim>\<open>create_analysis\<close>.
\<close>

definition findValidUpstreamStates :: "(modality \<Rightarrow> qc_state) \<Rightarrow> modality list" where
  "findValidUpstreamStates qc_states = filter (\<lambda>k. qc_valid (qc_states k)) [RNA, ADT, CRISPR]"

text \<open>\<^verbatim>\<open>find_usable_upstream_states\<close>; the states are kept by their keys.\<close>

definition find_usable_upstream_states :: "(modality \<Rightarrow> qc_state) \<Rightarrow> (modality \<Rightarrow> bool) \<Rightarrow> modality list" where
  "find_usable_upstream_states qc_states in_use =
     filter (\<lambda>k. in_use k) (findValidUpstreamStates qc_states)"

text \<open>
  A Uint8WasmArray in the cache: a buffer of its own (\<^verbatim>\<open>owner === null\<close>), or the view
  that \<^verbatim>\<open>view()\<close> made on the discard vector of a quality control state, which shares
  that vector's memory and has it as owner.
\<close>

datatype discard_array = OwnedBuffer "8 word list" | ViewOf modality

definition is_owned :: "discard_array \<Rightarrow> bool" where
  "is_owned d = (case d of OwnedBuffer bytes \<Rightarrow> True | ViewOf k \<Rightarrow> False)"

text \<open>The bytes an array holds: a view reads the memory of its owner.\<close>

definition array_bytes :: "(modality \<Rightarrow> qc_state) \<Rightarrow> discard_array \<Rightarrow> 8 word list" where
  "array_bytes qc_states d =
     (case d of OwnedBuffer bytes \<Rightarrow> bytes | ViewOf k \<Rightarrow> qc_discards (qc_states k))"

text \<open>
  The body of the callback of line 693 for one vector: \<^verbatim>\<open>disc_arr[i] |= y\<close> at every
  position of the vector. A write past the end of the typed array does nothing.
\<close>

definition or_into :: "8 word list \<Rightarrow> 8 word list \<Rightarrow> 8 word list" where
  "or_into disc_arr ys =
     map (\<lambda>i. if i < length ys then (disc_arr ! i) OR (ys ! i) else disc_arr ! i) [0 ..< length disc_arr]"

text \<open>Lines 688-694: a zero-filled buffer as long as the first vector, then the loop
  over the states in use.\<close>

definition merge_discards :: "(modality \<Rightarrow> qc_state) \<Rightarrow> modality list \<Rightarrow> 8 word list" where
  "merge_discards qc_states to_use =
     foldl or_into (replicate (length (qc_discards (qc_states (hd to_use)))) 0)
       (map (\<lambda>u. qc_discards (qc_states u)) to_use)"

record cell_filtering_parameters =
  use_rna :: "bool option"
  use_adt :: "bool option"
  use_crispr :: "bool option"

text \<open>A matrix of the filtered MultiMatrix: the columns of the named input matrix that
  the discard bytes keep, or a clone of it.\<close>

datatype filtered_matrix = FilteredCells string "8 word list" | Clone string

text \<open>\<^verbatim>\<open>this.#cache.block_buffer\<close>: null, a view on the block of the inputs, a buffer
  of its own with the blocks of the kept cells, or one of these after
  \<^verbatim>\<open>utils.freeCache\<close> has released it.\<close>

datatype block_array = BlockNull | BlockView | BlockFiltered "int list" | Freed block_array

text \<open>\<^verbatim>\<open>utils.freeCache(this.#cache.block_buffer)\<close> (line 630): the property stays in the
  cache; an absent or null entry is left alone, and releasing twice is releasing once.\<close>

definition free_block :: "block_array option \<Rightarrow> block_array option" where
  "free_block b =
     (case b of
        None \<Rightarrow> None
      | Some BlockNull \<Rightarrow> Some BlockNull
      | Some (Freed x) \<Rightarrow> Some (Freed x)
      | Some x \<Rightarrow> Some (Freed x))"

text \<open>The cache; \<open>None\<close> is a property that is not in the object.\<close>

record cell_filtering_cache =
  discard_buffer :: "discard_array option"
  filtered :: "(string \<times> filtered_matrix) list option"
  block_buffer :: "block_array option"

record CellFilteringState =
  filter_parameters :: cell_filtering_parameters
  filter_cache :: cell_filtering_cache
  filter_changed :: bool

text \<open>
  What the step reads from the inputs state and the library: \<^verbatim>\<open>this.#inputs.changed\<close>,
  the modalities of the count matrix (\<^verbatim>\<open>available()\<close>), the block that
  \<^verbatim>\<open>fetchBlock()\<close> returns, for each modality the exception that \<^verbatim>\<open>scran.filterCells\<close> or
  \<^verbatim>\<open>clone\<close> throws on its matrix (lines 619-623), if it throws, and the exception that
  \<^verbatim>\<open>this.#inputs.fetchBlock()\<close> throws on line 632, if it throws. The other calls of
  the two methods (\<^verbatim>\<open>fetchCountMatrix\<close>, \<^verbatim>\<open>available\<close>, \<^verbatim>\<open>get\<close>, \<^verbatim>\<open>add\<close>,
  \<^verbatim>\<open>utils.allocateCachedArray\<close>, \<^verbatim>\<open>scran.filterBlock\<close>, \<^verbatim>\<open>view\<close>) are taken to return.
\<close>

record filtering_inputs =
  inputs_changed :: bool
  available :: "string list"
  fetchBlock :: "int list option"
  filter_throws :: "string \<Rightarrow> js_error option"
  block_throws :: "js_error option"

definition new_CellFilteringState :: CellFilteringState where
  "new_CellFilteringState =
     \<lparr> filter_parameters = \<lparr> use_rna = None, use_adt = None, use_crispr = None \<rparr>,
       filter_cache = \<lparr> discard_buffer = None, filtered = None, block_buffer = None \<rparr>,
       filter_changed = False \<rparr>"

text \<open>
  The loop of \<^verbatim>\<open>#raw_compute_matrix\<close> (lines 615-626) over the modalities left to add,
  with the MultiMatrix built so far: an exception leaves the method with the matrices
  added before it. \<open>filter_or_clone\<close> is the matrix of lines 618-623.
\<close>

definition filter_or_clone :: "8 word list option \<Rightarrow> string \<Rightarrow> filtered_matrix" where
  "filter_or_clone discards a =
     (case discards of Some bytes \<Rightarrow> FilteredCells a bytes | None \<Rightarrow> Clone a)"

fun add_filtered ::
  "filtering_inputs \<Rightarrow> 8 word list option \<Rightarrow> string list \<Rightarrow> (string \<times> filtered_matrix) list
     \<Rightarrow> js_error option \<times> (string \<times> filtered_matrix) list" where
  "add_filtered inp discards [] acc = (None, acc)"
| "add_filtered inp discards (a # rest) acc =
     (case filter_throws inp a of
        Some e \<Rightarrow> (Some e, acc)
      | None \<Rightarrow>
          add_filtered inp discards rest (acc @ [(a, filter_or_clone discards a)]))"

text \<open>\<^verbatim>\<open>#raw_compute_matrix\<close>: the old MultiMatrix is released and replaced by an empty
  one before the loop starts.\<close>

definition raw_compute_matrix ::
  "filtering_inputs \<Rightarrow> (modality \<Rightarrow> qc_state) \<Rightarrow> cell_filtering_cache \<Rightarrow> js_error option \<times> cell_filtering_cache" where
  "raw_compute_matrix inp qc_states c =
     (let (err, m) = add_filtered inp (map_option (array_bytes qc_states) (discard_buffer c)) (available inp) []
      in (err, c\<lparr>filtered := Some m\<rparr>))"

text \<open>\<^verbatim>\<open>scran.filterBlock\<close>: the blocks of the cells whose discard byte is zero.\<close>

definition filterBlock :: "int list \<Rightarrow> 8 word list \<Rightarrow> int list" where
  "filterBlock blk discards = map fst (filter (\<lambda>(b, d). d = 0) (zip blk discards))"

text \<open>\<^verbatim>\<open>#raw_compute_block\<close> (lines 629-646), called when the matrix is in the cache:
  the old block buffer is released on line 630, before \<^verbatim>\<open>fetchBlock()\<close> is called; an
  exception of that call leaves the released buffer in the cache.\<close>

definition raw_compute_block ::
  "filtering_inputs \<Rightarrow> (modality \<Rightarrow> qc_state) \<Rightarrow> cell_filtering_cache
     \<Rightarrow> js_error option \<times> cell_filtering_cache" where
  "raw_compute_block inp qc_states c =
     (let c0 = c\<lparr>block_buffer := free_block (block_buffer c)\<rparr> in
      case block_throws inp of
        Some e \<Rightarrow> (Some e, c0)
      | None \<Rightarrow>
          (None,
           case fetchBlock inp of
             Some blk \<Rightarrow>
               (case discard_buffer c0 of
                  Some d \<Rightarrow> c0\<lparr>block_buffer := Some (BlockFiltered (filterBlock blk (array_bytes qc_states d)))\<rparr>
                | None \<Rightarrow> c0\<lparr>block_buffer := Some BlockView\<rparr>)
           | None \<Rightarrow> c0\<lparr>block_buffer := Some BlockNull\<rparr>))"

text \<open>
  \<^verbatim>\<open>CellFilteringState.compute\<close> (lines 658-711). \<open>in_use\<close> is the object of line 672.
  With more than one state in use \<^verbatim>\<open>utils.allocateCachedArray\<close> leaves a buffer owned by
  the cache in \<^verbatim>\<open>discard_buffer\<close>, which lines 689-694 fill; with one, the entry becomes
  a view on that state's vector; with none, the property is deleted.
\<close>

definition in_use_flags :: "bool \<Rightarrow> bool \<Rightarrow> bool \<Rightarrow> modality \<Rightarrow> bool" where
  "in_use_flags u_rna u_adt u_crispr k = (case k of RNA \<Rightarrow> u_rna | ADT \<Rightarrow> u_adt | CRISPR \<Rightarrow> u_crispr)"

definition CellFilteringState_compute ::
  "filtering_inputs \<Rightarrow> (modality \<Rightarrow> qc_state) \<Rightarrow> bool \<Rightarrow> bool \<Rightarrow> bool \<Rightarrow> CellFilteringState
     \<Rightarrow> js_error option \<times> CellFilteringState" where
  "CellFilteringState_compute inp qc_states u_rna u_adt u_crispr st =
     (let s0 = st\<lparr>filter_changed := False\<rparr>;
          s1 = (if inputs_changed inp then s0\<lparr>filter_changed := True\<rparr> else s0);
          s2 = (if use_rna (filter_parameters s1) \<noteq> Some u_rna
                   \<or> use_adt (filter_parameters s1) \<noteq> Some u_adt
                   \<or> use_crispr (filter_parameters s1) \<noteq> Some u_crispr
                then s1\<lparr>filter_parameters :=
                          \<lparr> use_rna = Some u_rna, use_adt = Some u_adt, use_crispr = Some u_crispr \<rparr>,
                        filter_changed := True\<rparr>
                else s1);
          to_use = find_usable_upstream_states qc_states (in_use_flags u_rna u_adt u_crispr);
          s3 = (if \<not> filter_changed s2 \<and> list_ex (\<lambda>u. qc_changed (qc_states u)) to_use
                then s2\<lparr>filter_changed := True\<rparr> else s2)
      in if filter_changed s3 then
           (let c = filter_cache s3;
                c1 = (if length to_use > 0 then
                        (if length to_use > 1
                         then c\<lparr>discard_buffer := Some (OwnedBuffer (merge_discards qc_states to_use))\<rparr>
                         else c\<lparr>discard_buffer := Some (ViewOf (hd to_use))\<rparr>)
                      else c\<lparr>discard_buffer := None\<rparr>);
                (err, c2) = raw_compute_matrix inp qc_states c1
            in case err of
                 Some e \<Rightarrow> (Some e, s3\<lparr>filter_cache := c2\<rparr>)
               | None \<Rightarrow>
                   (let (err', c3) = raw_compute_block inp qc_states c2
                    in (err', s3\<lparr>filter_cache := c3\<rparr>)))
         else (None, s3))"

text \<open>\<^verbatim>\<open>fetchDiscards()\<close> (lines 591-597); \<open>None\<close> is null.\<close>

definition fetchDiscards :: "CellFilteringState \<Rightarrow> discard_array option" where
  "fetchDiscards st = (case discard_buffer (filter_cache st) of Some d \<Rightarrow> Some d | None \<Rightarrow> None)"

text \<open>
  Whether filtering removes a cell, as \<^verbatim>\<open>applyFilter\<close> decides it (lines 737-742): with no
  \<^verbatim>\<open>discard_buffer\<close> every cell is kept, otherwise the cells with a non-zero byte go.
  \<open>byte_at\<close> reads a vector; past its end there is no discard signal.
\<close>

definition byte_at :: "8 word list \<Rightarrow> nat \<Rightarrow> 8 word" where
  "byte_at v cell = (if cell < length v then v ! cell else 0)"

definition removes_cell :: "(modality \<Rightarrow> qc_state) \<Rightarrow> CellFilteringState \<Rightarrow> nat \<Rightarrow> bool" where
  "removes_cell qc_states st cell =
     (case discard_buffer (filter_cache st) of
        None \<Rightarrow> False
      | Some d \<Rightarrow> byte_at (array_bytes qc_states d) cell \<noteq> 0)"

text \<open>
  The merge as the specification words it: for a cell, the OR over all modalities in use
  of that modality's discard byte for the cell.
\<close>

definition discard_or :: "(modality \<Rightarrow> qc_state) \<Rightarrow> modality list \<Rightarrow> nat \<Rightarrow> 8 word" where
  "discard_or qc_states in_use cell =
     foldl (\<lambda>acc m. acc OR byte_at (qc_discards (qc_states m)) cell) 0 in_use"

text \<open>
  \<^verbatim>\<open>serialize\<close> (lines 784-809): the datasets written into the group \<^verbatim>\<open>parameters\<close> and
  into the group \<^verbatim>\<open>results\<close>.
\<close>

record filtering_group =
  parameter_datasets :: "(string \<times> bool option) list"
  result_datasets :: "(string \<times> 8 word list) list"

definition CellFilteringState_serialize :: "CellFilteringState \<Rightarrow> filtering_group" where
  "CellFilteringState_serialize st =
     \<lparr> parameter_datasets =
         [(''use_rna'', use_rna (filter_parameters st)),
          (''use_adt'', use_adt (filter_parameters st)),
          (''use_crispr'', use_crispr (filter_parameters st))],
       result_datasets =
         (case discard_buffer (filter_cache st) of
            Some (OwnedBuffer bytes) \<Rightarrow> [(''discards'', bytes)]
          | Some (ViewOf k) \<Rightarrow> []
          | None \<Rightarrow> []) \<rparr>"

subsection \<open>src/steps/cell_labelling.js\<close>

text \<open>The element loop of \<^verbatim>\<open>compare_arrays\<close> (lines 399-403), for arrays of one length.\<close>

fun same_elements :: "string list \<Rightarrow> string list \<Rightarrow> bool" where
  "same_elements (x # xs) (y # ys) = (if x \<noteq> y then False else same_elements xs ys)"
| "same_elements xs ys = True"

text \<open>\<^verbatim>\<open>compare_arrays(x, y)\<close> for arrays of strings; \<open>None\<close> is \<^verbatim>\<open>undefined\<close>.\<close>

definition compare_arrays :: "string list option \<Rightarrow> string list option \<Rightarrow> bool" where
  "compare_arrays x y =
     (case (x, y) of
        (Some xs, Some ys) \<Rightarrow> (if length xs \<noteq> length ys then False else same_elements xs ys)
      | _ \<Rightarrow> False)"

record cell_labelling_parameters =
  human_references :: "string list option"
  mouse_references :: "string list option"

text \<open>
  The state object; the cache (features, cluster means, the promises of the per-reference
  and integrated labels, the references built) is kept as one value of a type that the
  model leaves open.
\<close>

record 'c CellLabellingState =
  labelling_parameters :: cell_labelling_parameters
  labelling_cache :: 'c
  labelling_changed :: bool

text \<open>
  What \<^verbatim>\<open>compute\<close> reads: the \<^verbatim>\<open>changed\<close> flags of the inputs and marker states, and
  the effect of lines 199-295 on the cache for the given references (feature choice,
  reference building, cluster means, classification and integration, all of them calls
  into the inputs state, the marker state and scran.js): the cache they leave, and how
  they end. \<open>Threw\<close> is an exception of one of these lines, which leaves \<^verbatim>\<open>compute\<close>
  before lines 296-298. \<open>Rejected\<close> is the rejection of one of the promises they start
  (a reference download, \<^verbatim>\<open>labelCells\<close>, the integration): the lines themselves return,
  lines 296-298 run, and the promise that \<^verbatim>\<open>compute\<close> returns on line 300 is rejected.
\<close>

record 'c labelling_upstream =
  label_inputs_changed :: bool
  label_markers_changed :: bool
  relabel :: "string list \<Rightarrow> string list \<Rightarrow> 'c \<Rightarrow> completion \<times> 'c"

text \<open>\<^verbatim>\<open>CellLabellingState.compute\<close> (lines 189-301) for two arrays of reference names:
  the early return of lines 190-197, then the recomputation, then lines 296-298. The
  result is the exception that a caller awaiting the call meets, if any, and the state
  object.\<close>

definition CellLabellingState_compute ::
  "'c labelling_upstream \<Rightarrow> string list \<Rightarrow> string list \<Rightarrow> 'c CellLabellingState
     \<Rightarrow> js_error option \<times> 'c CellLabellingState" where
  "CellLabellingState_compute up human mouse st =
     (if \<not> label_inputs_changed up \<and> \<not> label_markers_changed up
          \<and> compare_arrays (Some human) (human_references (labelling_parameters st))
          \<and> compare_arrays (Some mouse) (mouse_references (labelling_parameters st))
      then (None, st\<lparr>labelling_changed := False\<rparr>)
      else
        (case relabel up human mouse (labelling_cache st) of
           (Threw e, c) \<Rightarrow> (Some e, st\<lparr>labelling_cache := c\<rparr>)
         | (Rejected e, c) \<Rightarrow>
             (Some e, st\<lparr>labelling_cache := c,
                          labelling_parameters := \<lparr> human_references = Some human, mouse_references = Some mouse \<rparr>,
                          labelling_changed := True\<rparr>)
         | (Returned, c) \<Rightarrow>
             (None, st\<lparr>labelling_cache := c,
                        labelling_parameters := \<lparr> human_references = Some human, mouse_references = Some mouse \<rparr>,
                        labelling_changed := True\<rparr>)))"

subsection \<open>The feature set enrichment step: FeatureSetEnrichmentState.compute\<close>

text \<open>Whether a value counts as true in a condition.\<close>

fun truthy :: "js_value \<Rightarrow> bool" where
  "truthy JUndefined = False"
| "truthy JNull = False"
| "truthy (JBoolean b) = b"
| "truthy (JNumber x) = (x \<noteq> 0)"
| "truthy (JString s) = (s \<noteq> [])"
| "truthy (JArray xs) = True"
| "truthy (JObject props) = True"





subsection \<open>Example data\<close>

text \<open>
  Small inputs for running the step methods: a parameter object for the CRISPR PCA, a
  state that has computed with it, a \<^verbatim>\<open>runPCA\<close> that returns, one that throws and
  fetches that throw; quality control states for a dataset of four cells with RNA and ADT
  but no CRISPR modality; inputs without blocks whose matrices filter without error,
  inputs where filtering the ADT matrix throws, and inputs where \<^verbatim>\<open>fetchBlock\<close> throws.
\<close>

definition pca_request :: js_value where
  "pca_request = JObject [(''num_pcs'', JNumber 20), (''block_method'', JString ''none'')]"

definition pca_computed :: step_state where
  "pca_computed =
     \<lparr> parameters = [(''num_pcs'', JNumber 20), (''block_method'', JString ''none'')],
       results = Some \<lparr> object_id = 1, released = False \<rparr>, changed = True \<rparr>"

definition runPCA_returns :: "js_value \<Rightarrow> js_value \<Rightarrow> pca_outcome" where
  "runPCA_returns n_pcs b_method = PcaReturns \<lparr> object_id = 2, released = False \<rparr>"

definition runPCA_throws :: "js_value \<Rightarrow> js_value \<Rightarrow> pca_outcome" where
  "runPCA_throws n_pcs b_method = PcaThrows (Error ''runPCA'')"


definition four_cells_qc :: "modality \<Rightarrow> qc_state" where
  "four_cells_qc k =
     (case k of
        RNA \<Rightarrow> \<lparr> qc_valid = True, qc_changed = True, qc_discards = [0, 1, 0, 0] \<rparr>
      | ADT \<Rightarrow> \<lparr> qc_valid = True, qc_changed = True, qc_discards = [0, 0, 1, 0] \<rparr>
      | CRISPR \<Rightarrow> \<lparr> qc_valid = False, qc_changed = False, qc_discards = [] \<rparr>)"

definition four_cells_inputs :: filtering_inputs where
  "four_cells_inputs =
     \<lparr> inputs_changed = True, available = [''RNA'', ''ADT''], fetchBlock = None,
       filter_throws = (\<lambda>a. None), block_throws = None \<rparr>"




text \<open>A labelling state whose cache is a counter of the recomputations, and upstream
  states that have not changed.\<close>

definition new_labelling :: "nat CellLabellingState" where
  "new_labelling =
     \<lparr> labelling_parameters = \<lparr> human_references = None, mouse_references = None \<rparr>,
       labelling_cache = 0, labelling_changed = False \<rparr>"

definition quiet_labelling :: "nat labelling_upstream" where
  "quiet_labelling =
     \<lparr> label_inputs_changed = False, label_markers_changed = False,
       relabel = (\<lambda>human mouse cache. (Returned, Suc cache)) \<rparr>"

text \<open>Upstream states whose feature choice throws, and ones where a reference download
  is rejected.\<close>

definition failing_features :: "nat labelling_upstream" where
  "failing_features =
     \<lparr> label_inputs_changed = True, label_markers_changed = False,
       relabel = (\<lambda>human mouse cache. (Threw (Error ''fetchGenes''), cache)) \<rparr>"

definition failing_download :: "nat labelling_upstream" where
  "failing_download =
     \<lparr> label_inputs_changed = False, label_markers_changed = False,
       relabel = (\<lambda>human mouse cache. (Rejected (Error ''fetch''), Suc cache)) \<rparr>"


section \<open>The orchestrator: src/analysis.js\<close>





















subsection \<open>The two steps of src/ that runAnalysis calls with other arguments than they declare\<close>

text \<open>The \<open>n\<close>-th argument of a call; a missing argument is \<^verbatim>\<open>undefined\<close>.\<close>

definition argument :: "js_value list \<Rightarrow> nat \<Rightarrow> js_value" where
  "argument args n = (if n < length args then args ! n else JUndefined)"

text \<open>
  \<^verbatim>\<open>CellFilteringState.compute(use_rna, use_adt, use_crispr)\<close> (lines 658-711) for
  arguments of any type: line 227 of \<^verbatim>\<open>runAnalysis\<close> hands it the parameter object alone,
  which becomes \<^verbatim>\<open>use_rna\<close>, and the two others are \<^verbatim>\<open>undefined\<close>. Lines 665-669 compare
  and store the arguments as they are, and line 672 reads them as conditions. The
  cache is kept as the MultiMatrix it holds. \<open>refilter\<close> is what lines 680-710 put into the
  cache for the quality control states in use, and the exception if they throw. An
  object handed over again is the same object (the callers of the tests keep one
  parameter object and assign to its properties), so \<^verbatim>\<open>!==\<close> between the object stored
  and the object handed over is inequality of the values. For three booleans the flag is
  the one of \<open>CellFilteringState_compute\<close>.
\<close>

record filtering_upstream =
  filter_inputs_changed :: bool
  filter_qc :: "modality \<Rightarrow> qc_state"
  refilter :: "modality list \<Rightarrow> js_error option \<times> wasm_object"

definition arguments_in_use :: "js_value \<Rightarrow> js_value \<Rightarrow> js_value \<Rightarrow> modality \<Rightarrow> bool" where
  "arguments_in_use u_rna u_adt u_crispr k =
     truthy (case k of RNA \<Rightarrow> u_rna | ADT \<Rightarrow> u_adt | CRISPR \<Rightarrow> u_crispr)"

definition CellFilteringState_compute_js ::
  "filtering_upstream \<Rightarrow> js_value list \<Rightarrow> step_state \<Rightarrow> js_error option \<times> step_state" where
  "CellFilteringState_compute_js up args st =
     (let u_rna = argument args 0; u_adt = argument args 1; u_crispr = argument args 2;
          s0 = st\<lparr>changed := False\<rparr>;
          s1 = (if filter_inputs_changed up then s0\<lparr>changed := True\<rparr> else s0);
          s2 = (if get_property (parameters s1) ''use_rna'' \<noteq> u_rna
                   \<or> get_property (parameters s1) ''use_adt'' \<noteq> u_adt
                   \<or> get_property (parameters s1) ''use_crispr'' \<noteq> u_crispr
                then s1\<lparr>parameters := AList.update ''use_crispr'' u_crispr
                                          (AList.update ''use_adt'' u_adt
                                            (AList.update ''use_rna'' u_rna (parameters s1))),
                        changed := True\<rparr>
                else s1);
          to_use = find_usable_upstream_states (filter_qc up) (arguments_in_use u_rna u_adt u_crispr);
          s3 = (if \<not> changed s2 \<and> list_ex (\<lambda>u. qc_changed (filter_qc up u)) to_use
                then s2\<lparr>changed := True\<rparr> else s2)
      in if changed s3 then
           (let (err, m) = refilter up to_use in (err, s3\<lparr>results := Some m\<rparr>))
         else (None, s3))"



subsection \<open>The steps whose classes are not among the sources\<close>







subsection \<open>The table of compute methods\<close>

text \<open>An exception that a method throws, and one that rejects the promise of an
  \<^verbatim>\<open>async\<close> method.\<close>

definition thrown :: "js_error option \<Rightarrow> completion" where
  "thrown err = (case err of None \<Rightarrow> Returned | Some e \<Rightarrow> Threw e)"









subsection \<open>Step objects that a rerun leaves alone\<close>

text \<open>
  The conditions under which the \<^verbatim>\<open>compute\<close> of a step, called again with the same
  arguments while no upstream flag is set, takes its no-op branch: the inputs step
  remembers the datasets and the parameters and holds a result; the filtering step has
  stored the three arguments; the CRISPR PCA has stored the two parameters it reads.
\<close>

definition inputs_settled :: "js_value \<Rightarrow> js_value \<Rightarrow> step_state \<Rightarrow> bool" where
  "inputs_settled d x s =
     (parameters s = [(''datasets'', if d = JNull then get_property (parameters s) ''datasets'' else d),
                      (''parameters'', x)]
      \<and> results s \<noteq> None)"

definition filter_settled :: "js_value list \<Rightarrow> step_state \<Rightarrow> bool" where
  "filter_settled args s =
     (get_property (parameters s) ''use_rna'' = argument args 0
      \<and> get_property (parameters s) ''use_adt'' = argument args 1
      \<and> get_property (parameters s) ''use_crispr'' = argument args 2)"

definition crispr_settled :: "js_value \<Rightarrow> step_state \<Rightarrow> bool" where
  "crispr_settled x s =
     (js_get x ''num_pcs'' = Inr (get_property (parameters s) ''num_pcs'')
      \<and> js_get x ''block_method'' = Inr (get_property (parameters s) ''block_method''))"



subsection \<open>Example analysis\<close>















section \<open>Theorems: src/dump/List.js\<close>

lemma scan_flags_fst:
  "fst (scan_flags xs (a, b)) = (a \<and> (\<forall>e \<in> set xs. e = JNull \<or> typeof e = ''string''))"
  by (induction xs arbitrary: a b) auto

lemma scan_flags_snd:
  "snd (scan_flags xs (a, b)) = (b \<and> (\<forall>e \<in> set xs. typeof e \<noteq> ''string''))"
  by (induction xs arbitrary: a b) (auto split: if_splits)

lemma dump_internal_nonempty_array:
  "x \<noteq> [] \<Longrightarrow> dump_internal (JArray x) = Inl (ReferenceError ''v'')"
  by (simp split: prod.splits)

text \<open>
  C10. For a non-empty array whose elements are all strings, or none of whose elements
  is a string, one of the two flags is still set after the scan, and \<^verbatim>\<open>dump_internal\<close>
  (hence \<^verbatim>\<open>dumpList\<close>) throws a ReferenceError for \<^verbatim>\<open>v\<close> instead of returning. The last
  branch, reached by \<^verbatim>\<open>undefined\<close> and \<^verbatim>\<open>null\<close>, throws a ReferenceError for \<^verbatim>\<open>k\<close>
  instead of the Error it builds.
\<close>

theorem dump_internal_array_throws:
  assumes "x \<noteq> []"
    and "(\<forall>e \<in> set x. typeof e = ''string'') \<or> (\<forall>e \<in> set x. typeof e \<noteq> ''string'')"
  shows "(fst (scan_flags x (True, True)) \<or> snd (scan_flags x (True, True)))
       \<and> dump_internal (JArray x) = Inl (ReferenceError ''v'')
       \<and> dumpList (JArray x) path = Inl (ReferenceError ''v'')
       \<and> dump_internal JUndefined = Inl (ReferenceError ''k'')
       \<and> dump_internal JNull = Inl (ReferenceError ''k'')"
proof -
  have flags: "fst (scan_flags x (True, True)) \<or> snd (scan_flags x (True, True))"
    using assms(2) by (auto simp: scan_flags_fst scan_flags_snd)
  have thrown: "dump_internal (JArray x) = Inl (ReferenceError ''v'')"
    using assms(1) by (rule dump_internal_nonempty_array)
  then have "dumpList (JArray x) path = Inl (ReferenceError ''v'')"
    by (simp add: dumpList_def)
  with flags thrown show ?thesis by simp
qed

theorem dump_internal_array_throws_witness:
  "[JString ''a'', JString ''b''] \<noteq> []
   \<and> dump_internal (JArray [JString ''a'', JString ''b'']) = Inl (ReferenceError ''v'')
   \<and> dumpList (JArray [JString ''a'', JString ''b'']) (Some ''out'') = Inl (ReferenceError ''v'')
   \<and> [JNumber 1, JBoolean True] \<noteq> []
   \<and> dump_internal (JArray [JNumber 1, JBoolean True]) = Inl (ReferenceError ''v'')"
  using dump_internal_array_throws [of "[JString ''a'', JString ''b'']" "Some ''out''"]
    dump_internal_array_throws [of "[JNumber 1, JBoolean True]" None]
  by simp

section \<open>Theorems: src/readers/utils/features.js\<close>

lemma noop_loop_string: "noop_loop (JString k) i n = (n \<le> i)"
  by (subst noop_loop.simps) simp

text \<open>Handed a key, \<^verbatim>\<open>is_subset_noop\<close> answers true only for the empty key and a matrix
  with no rows.\<close>

lemma is_subset_noop_key: "is_subset_noop (JString k) n = Inr (k = [] \<and> n = 0)"
  by (auto simp: is_subset_noop_def noop_loop_string)

lemma noop_loop_indices:
  "length idx = n \<Longrightarrow>
     noop_loop (JArray (map (\<lambda>i. JNumber (real i)) idx)) i n = (\<forall>j. i \<le> j \<and> j < n \<longrightarrow> idx ! j = j)"
proof (induction "n - i" arbitrary: i)
  case 0
  then show ?case by (subst noop_loop.simps) simp
next
  case (Suc d)
  then have lt: "i < n" and d: "d = n - Suc i" by simp_all
  have split: "(\<forall>j. i \<le> j \<and> j < n \<longrightarrow> idx ! j = j)
      = (idx ! i = i \<and> (\<forall>j. Suc i \<le> j \<and> j < n \<longrightarrow> idx ! j = j))"
  proof (intro iffI conjI allI impI)
    assume a: "\<forall>j. i \<le> j \<and> j < n \<longrightarrow> idx ! j = j"
    show "idx ! i = i" using a lt by simp
    fix j assume "Suc i \<le> j \<and> j < n"
    then show "idx ! j = j" using a by simp
  next
    fix j
    assume b: "idx ! i = i \<and> (\<forall>j. Suc i \<le> j \<and> j < n \<longrightarrow> idx ! j = j)"
      and j: "i \<le> j \<and> j < n"
    show "idx ! j = j"
    proof (cases "j = i")
      case True
      then show ?thesis using b by simp
    next
      case False
      then have "Suc i \<le> j" using j by simp
      then show ?thesis using b j by simp
    qed
  qed
  have step: "noop_loop (JArray (map (\<lambda>i. JNumber (real i)) idx)) i n =
        (idx ! i = i \<and> noop_loop (JArray (map (\<lambda>i. JNumber (real i)) idx)) (Suc i) n)"
    using lt Suc.prems by (subst noop_loop.simps) auto
  show ?case
    unfolding step split using Suc.hyps(1)[OF d Suc.prems] by simp
qed

text \<open>Handed the index array of a group, \<^verbatim>\<open>is_subset_noop\<close> does recognise the identity
  on all rows: the function is right, the argument of line 63 is not.\<close>

lemma is_subset_noop_indices:
  "is_subset_noop (JArray (map (\<lambda>i. JNumber (real i)) idx)) n = Inr (idx = [0 ..< n])"
  by (auto simp: is_subset_noop_def noop_loop_indices list_eq_iff_nth_eq)

text \<open>
  C8. A feature-type column with the single type "Gene Expression" on all three rows
  induces the identity partition. \<^verbatim>\<open>splitScranMatrixAndFeatures\<close> does not rename the
  loaded matrix: it hands the key to \<^verbatim>\<open>is_subset_noop\<close>, gets false, and lets
  \<^verbatim>\<open>scran.splitRows\<close> copy the three rows into a new matrix.
\<close>

theorem split_identity_partition_copies:
  "splitScranMatrixAndFeatures \<lparr> numberOfRows = 3, loaded_row_ids = None,
         raw_type_column = Some [''Gene Expression'', ''Gene Expression'', ''Gene Expression''],
         featureTypeMapping = None, featureTypeDefault = ''RNA'' \<rparr>
   = Inr \<lparr> out_matrix = [(''Gene Expression'', SplitRows [0, 1, 2])],
           out_row_ids = [(''Gene Expression'', [0, 1, 2])] \<rparr>"
  by (simp add: splitScranMatrixAndFeatures_def presplitFactor_def is_subset_noop_key upt_rec
      Let_def eval_nat_numeral)

section \<open>Theorems: feature set enrichment\<close>

text \<open>
  C9. With the effect size "cohen" and the summary "min_rank", where a smaller statistic
  is the better one, \<^verbatim>\<open>computeEnrichment\<close> still asks for the largest statistics and
  keeps the genes at or above the threshold: of three genes with ranks 1, 2 and 3 and
  one top marker wanted, it selects the gene of rank 3 (and tests its set, number 2), not
  the gene of rank 1. Line 201 compares \<^verbatim>\<open>effect_size\<close> with "min_rank", which is a
  summary and never an effect size.
\<close>

theorem min_rank_summary_selects_largest:
  "computeEnrichment
     \<lparr> markers = three_gene_markers, computeTopThreshold = top_threshold,
       countSetOverlaps = count_overlaps, testEnrichment = pvalue \<rparr>
     \<lparr> universe = [0, 1, 2], mapping_to_sets = [[0], [1], [2]], set_sizes = [1, 1, 1] \<rparr>
     0 ''cohen'' ''min_rank'' 1
   = Inr \<lparr> set_ids = [2], counts = [1], pvalues = [pvalue 1 1 1 3], num_markers = 1 \<rparr>"
  by code_simp

section \<open>Theorems: step states\<close>

lemma get_property_update:
  "get_property (AList.update k v props) k' = (if k' = k then v else get_property props k')"
  by (simp add: get_property_def update_conv')

lemma store_pca_parameters_get:
  "get_property (parameters (store_pca_parameters n b st)) ''num_pcs'' = n"
  "get_property (parameters (store_pca_parameters n b st)) ''block_method'' = b"
  by (simp_all add: store_pca_parameters_def get_property_update)

lemma store_pca_parameters_fields:
  "results (store_pca_parameters n b st) = results st"
  "changed (store_pca_parameters n b st) = changed st"
  by (simp_all add: store_pca_parameters_def)

lemma crispr_changed:
  "js_get params ''num_pcs'' = Inr n \<Longrightarrow> js_get params ''block_method'' = Inr b \<Longrightarrow>
   changed (snd (CrisprPcaState_compute up params st)) =
     (norm_valid up
      \<and> (norm_changed up
         \<or> n \<noteq> get_property (parameters st) ''num_pcs''
         \<or> b \<noteq> get_property (parameters st) ''block_method'')
      \<and> (\<exists>res. runPCA up n b = PcaReturns res))"
  by (auto simp: CrisprPcaState_compute_def Let_def store_pca_parameters_fields split: pca_outcome.splits)

lemma crispr_flag_not_carried:
  "js_get params ''num_pcs'' = Inr n \<Longrightarrow> js_get params ''block_method'' = Inr b \<Longrightarrow>
   CrisprPcaState_compute up params (st\<lparr>changed := c\<rparr>) = CrisprPcaState_compute up params st"
  by (simp add: CrisprPcaState_compute_def Let_def)

lemma crispr_destructuring_throws:
  "js_get params ''num_pcs'' = Inl e \<Longrightarrow> CrisprPcaState_compute up params st = (Some e, st)"
  by (simp add: CrisprPcaState_compute_def)

lemma js_get_thrown: "js_get x k = Inl e \<Longrightarrow> (x = JUndefined \<or> x = JNull) \<and> e = TypeError k"
  by (cases x) auto

lemma filtering_changed:
  "filter_changed (snd (CellFilteringState_compute inp qcs a b c st)) =
     (inputs_changed inp
      \<or> use_rna (filter_parameters st) \<noteq> Some a
      \<or> use_adt (filter_parameters st) \<noteq> Some b
      \<or> use_crispr (filter_parameters st) \<noteq> Some c
      \<or> list_ex (\<lambda>u. qc_changed (qcs u)) (find_usable_upstream_states qcs (in_use_flags a b c)))"
  by (auto simp: CellFilteringState_compute_def Let_def split: prod.splits option.splits)

lemma filtering_flag_not_carried:
  "CellFilteringState_compute inp qcs a b c (st\<lparr>filter_changed := f\<rparr>) = CellFilteringState_compute inp qcs a b c st"
  by (simp add: CellFilteringState_compute_def Let_def)


lemma same_elements_eq: "length xs = length ys \<Longrightarrow> same_elements xs ys = (xs = ys)"
  by (induction xs ys rule: same_elements.induct) auto

lemma compare_arrays_eq: "compare_arrays (Some xs) y = (y = Some xs)"
  by (cases y) (auto simp: compare_arrays_def same_elements_eq)

lemma labelling_changed:
  "fst (CellLabellingState_compute up human mouse st) = None \<Longrightarrow>
   labelling_changed (snd (CellLabellingState_compute up human mouse st)) =
     (label_inputs_changed up \<or> label_markers_changed up
      \<or> human_references (labelling_parameters st) \<noteq> Some human
      \<or> mouse_references (labelling_parameters st) \<noteq> Some mouse)"
  by (auto simp: CellLabellingState_compute_def compare_arrays_eq split: prod.splits completion.splits)

lemma labelling_stores:
  "fst (CellLabellingState_compute up human mouse st) = None \<Longrightarrow>
   labelling_parameters (snd (CellLabellingState_compute up human mouse st))
     = \<lparr> human_references = Some human, mouse_references = Some mouse \<rparr>"
  by (auto simp: CellLabellingState_compute_def compare_arrays_eq split: prod.splits completion.splits if_splits)

lemma labelling_noop:
  "\<not> label_inputs_changed up \<Longrightarrow> \<not> label_markers_changed up \<Longrightarrow>
   labelling_parameters st = \<lparr> human_references = Some human, mouse_references = Some mouse \<rparr> \<Longrightarrow>
   CellLabellingState_compute up human mouse st = (None, st\<lparr>labelling_changed := False\<rparr>)"
  by (simp add: CellLabellingState_compute_def compare_arrays_eq)

lemma crispr_stores:
  "fst (CrisprPcaState_compute up params st) = None \<Longrightarrow>
   js_get params ''num_pcs'' = Inr (get_property (parameters (snd (CrisprPcaState_compute up params st))) ''num_pcs'')
   \<and> js_get params ''block_method'' = Inr (get_property (parameters (snd (CrisprPcaState_compute up params st))) ''block_method'')"
  by (auto simp: CrisprPcaState_compute_def Let_def store_pca_parameters_get
        split: sum.splits pca_outcome.splits if_splits)

lemma crispr_noop:
  "\<not> norm_changed up \<Longrightarrow>
   js_get params ''num_pcs'' = Inr (get_property (parameters st) ''num_pcs'') \<Longrightarrow>
   js_get params ''block_method'' = Inr (get_property (parameters st) ''block_method'') \<Longrightarrow>
   CrisprPcaState_compute up params st = (None, st\<lparr>changed := False\<rparr>)"
  by (simp add: CrisprPcaState_compute_def Let_def)

lemma filtering_stores:
  "filter_parameters (snd (CellFilteringState_compute inp qcs a b c st))
     = \<lparr> use_rna = Some a, use_adt = Some b, use_crispr = Some c \<rparr>"
  by (auto simp: CellFilteringState_compute_def Let_def split: prod.splits option.splits)

lemma filtering_noop:
  "\<not> inputs_changed inp \<Longrightarrow>
   \<not> list_ex (\<lambda>u. qc_changed (qcs u)) (find_usable_upstream_states qcs (in_use_flags a b c)) \<Longrightarrow>
   filter_parameters st = \<lparr> use_rna = Some a, use_adt = Some b, use_crispr = Some c \<rparr> \<Longrightarrow>
   CellFilteringState_compute inp qcs a b c st = (None, st\<lparr>filter_changed := False\<rparr>)"
  by (simp add: CellFilteringState_compute_def Let_def)

text \<open>
  C6. A second \<^verbatim>\<open>compute\<close> with the parameters of a call that returned, while no
  upstream flag that the step reads is set, sets \<^verbatim>\<open>changed\<close> to false and returns the
  state object otherwise as it was: the parameters, the cache and every object in it are
  the same. For CrisprPcaState and CellLabellingState (the flags of the inputs and marker
  states), and for CellFilteringState (the flag of the inputs and of the valid quality
  control states in use).
\<close>

theorem second_compute_is_noop:
  "(fst (CrisprPcaState_compute up1 params st) = None \<and> \<not> norm_changed up2 \<longrightarrow>
      CrisprPcaState_compute up2 params (snd (CrisprPcaState_compute up1 params st))
        = (None, (snd (CrisprPcaState_compute up1 params st))\<lparr>changed := False\<rparr>))
   \<and> (fst (CellLabellingState_compute lup1 human mouse lst) = None
        \<and> \<not> label_inputs_changed lup2 \<and> \<not> label_markers_changed lup2 \<longrightarrow>
      CellLabellingState_compute lup2 human mouse (snd (CellLabellingState_compute lup1 human mouse lst))
        = (None, (snd (CellLabellingState_compute lup1 human mouse lst))\<lparr>labelling_changed := False\<rparr>))
   \<and> (\<not> inputs_changed inp2
        \<and> \<not> list_ex (\<lambda>u. qc_changed (qcs2 u)) (find_usable_upstream_states qcs2 (in_use_flags a b c)) \<longrightarrow>
      CellFilteringState_compute inp2 qcs2 a b c (snd (CellFilteringState_compute inp1 qcs1 a b c fs))
        = (None, (snd (CellFilteringState_compute inp1 qcs1 a b c fs))\<lparr>filter_changed := False\<rparr>))"
  using crispr_noop [OF _ conjunct1 [OF crispr_stores] conjunct2 [OF crispr_stores]]
    labelling_noop [OF _ _ labelling_stores] filtering_noop [OF _ _ filtering_stores]
  by blast

theorem second_compute_is_noop_witness:
  "fst (CrisprPcaState_compute \<lparr> norm_changed = True, norm_valid = True, runPCA = runPCA_returns \<rparr>
          pca_request new_state) = None
   \<and> CrisprPcaState_compute \<lparr> norm_changed = False, norm_valid = True, runPCA = runPCA_throws \<rparr>
          pca_request
          (snd (CrisprPcaState_compute \<lparr> norm_changed = True, norm_valid = True, runPCA = runPCA_returns \<rparr>
                  pca_request new_state))
       = (None, \<lparr> parameters = [(''num_pcs'', JNumber 20), (''block_method'', JString ''none'')],
                  results = Some \<lparr> object_id = 2, released = False \<rparr>, changed = False \<rparr>)
   \<and> fst (CellLabellingState_compute quiet_labelling [''ImmGen''] [] new_labelling) = None
   \<and> labelling_cache (snd (CellLabellingState_compute quiet_labelling [''ImmGen''] []
          (snd (CellLabellingState_compute quiet_labelling [''ImmGen''] [] new_labelling)))) = 1
   \<and> filter_cache (snd (CellFilteringState_compute (four_cells_inputs\<lparr>inputs_changed := False\<rparr>)
          (\<lambda>k. (four_cells_qc k)\<lparr>qc_changed := False\<rparr>) True True True
          (snd (CellFilteringState_compute four_cells_inputs four_cells_qc True True True new_CellFilteringState))))
       = filter_cache (snd (CellFilteringState_compute four_cells_inputs four_cells_qc True True True new_CellFilteringState))"
proof -
  note noop = second_compute_is_noop [where ?up1.0 = "\<lparr> norm_changed = True, norm_valid = True, runPCA = runPCA_returns \<rparr>"
      and params = pca_request and st = new_state
      and ?up2.0 = "\<lparr> norm_changed = False, norm_valid = True, runPCA = runPCA_throws \<rparr>"
      and ?lup1.0 = quiet_labelling and ?lup2.0 = quiet_labelling and human = "[''ImmGen'']" and mouse = "[]"
      and lst = new_labelling
      and ?inp1.0 = four_cells_inputs and ?qcs1.0 = four_cells_qc and a = True and b = True and c = True
      and fs = new_CellFilteringState
      and ?inp2.0 = "four_cells_inputs\<lparr>inputs_changed := False\<rparr>"
      and ?qcs2.0 = "\<lambda>k. (four_cells_qc k)\<lparr>qc_changed := False\<rparr>"]
  have first: "fst (CrisprPcaState_compute \<lparr> norm_changed = True, norm_valid = True, runPCA = runPCA_returns \<rparr>
          pca_request new_state) = None"
    by (simp add: CrisprPcaState_compute_def pca_request_def new_state_def runPCA_returns_def)
  have state1: "snd (CrisprPcaState_compute \<lparr> norm_changed = True, norm_valid = True, runPCA = runPCA_returns \<rparr>
          pca_request new_state)
      = \<lparr> parameters = [(''num_pcs'', JNumber 20), (''block_method'', JString ''none'')],
          results = Some \<lparr> object_id = 2, released = False \<rparr>, changed = True \<rparr>"
    by (simp add: CrisprPcaState_compute_def pca_request_def new_state_def runPCA_returns_def
        get_property_def store_pca_parameters_def)
  have lfirst: "fst (CellLabellingState_compute quiet_labelling [''ImmGen''] [] new_labelling) = None"
    by (simp add: CellLabellingState_compute_def quiet_labelling_def new_labelling_def compare_arrays_def)
  have lstate: "labelling_cache (snd (CellLabellingState_compute quiet_labelling [''ImmGen''] [] new_labelling)) = 1"
    by (simp add: CellLabellingState_compute_def quiet_labelling_def new_labelling_def compare_arrays_def)
  have quiet: "\<not> label_inputs_changed quiet_labelling \<and> \<not> label_markers_changed quiet_labelling"
    by (simp add: quiet_labelling_def)
  have fquiet: "\<not> inputs_changed (four_cells_inputs\<lparr>inputs_changed := False\<rparr>)
      \<and> \<not> list_ex (\<lambda>u. qc_changed ((four_cells_qc u)\<lparr>qc_changed := False\<rparr>))
            (find_usable_upstream_states (\<lambda>k. (four_cells_qc k)\<lparr>qc_changed := False\<rparr>) (in_use_flags True True True))"
    by (simp add: list_ex_iff)
  from noop first state1 have c1: "CrisprPcaState_compute \<lparr> norm_changed = False, norm_valid = True, runPCA = runPCA_throws \<rparr>
          pca_request
          (snd (CrisprPcaState_compute \<lparr> norm_changed = True, norm_valid = True, runPCA = runPCA_returns \<rparr>
                  pca_request new_state))
       = (None, \<lparr> parameters = [(''num_pcs'', JNumber 20), (''block_method'', JString ''none'')],
                  results = Some \<lparr> object_id = 2, released = False \<rparr>, changed = False \<rparr>)"
    by simp
  from noop lfirst quiet lstate have c2: "labelling_cache (snd (CellLabellingState_compute quiet_labelling [''ImmGen''] []
          (snd (CellLabellingState_compute quiet_labelling [''ImmGen''] [] new_labelling)))) = 1"
    by simp
  from noop fquiet have c3: "filter_cache (snd (CellFilteringState_compute (four_cells_inputs\<lparr>inputs_changed := False\<rparr>)
          (\<lambda>k. (four_cells_qc k)\<lparr>qc_changed := False\<rparr>) True True True
          (snd (CellFilteringState_compute four_cells_inputs four_cells_qc True True True new_CellFilteringState))))
       = filter_cache (snd (CellFilteringState_compute four_cells_inputs four_cells_qc True True True new_CellFilteringState))"
    by simp
  from first c1 lfirst c2 c3 show ?thesis by simp
qed


lemma add_filtered_thrown:
  "add_filtered inp d mods acc = (Some e, ms) \<Longrightarrow>
     length ms < length acc + length mods \<and> take (length acc) ms = acc"
proof (induction mods arbitrary: acc)
  case Nil
  then show ?case by simp
next
  case (Cons a rest)
  show ?case
  proof (cases "filter_throws inp a")
    case None
    with Cons.prems have "add_filtered inp d rest (acc @ [(a, filter_or_clone d a)]) = (Some e, ms)"
      by simp
    from Cons.IH [OF this] have len: "length ms < length acc + length (a # rest)"
      and tk: "take (Suc (length acc)) ms = acc @ [(a, filter_or_clone d a)]"
      by simp_all
    from arg_cong [OF tk, of "take (length acc)"] have "take (length acc) ms = acc"
      by (simp add: min_def)
    with len show ?thesis by simp
  next
    case (Some e')
    with Cons.prems show ?thesis by simp
  qed
qed

lemma add_filtered_returned:
  "add_filtered inp d mods acc = (None, ms) \<Longrightarrow>
     ms = acc @ map (\<lambda>a. (a, filter_or_clone d a)) mods"
proof (induction mods arbitrary: acc)
  case Nil
  then show ?case by simp
next
  case (Cons a rest)
  show ?case
  proof (cases "filter_throws inp a")
    case None
    with Cons.prems have "add_filtered inp d rest (acc @ [(a, filter_or_clone d a)]) = (None, ms)"
      by simp
    from Cons.IH [OF this] show ?thesis by simp
  next
    case (Some e')
    with Cons.prems show ?thesis by simp
  qed
qed


lemma or_into_length: "length (or_into buf ys) = length buf"
  by (simp add: or_into_def)

lemma or_into_nth: "cell < length buf \<Longrightarrow> or_into buf ys ! cell = (buf ! cell) OR byte_at ys cell"
  by (simp add: or_into_def byte_at_def)

lemma foldl_or_into_length: "length (foldl or_into buf vs) = length buf"
  by (induction vs arbitrary: buf) (simp_all add: or_into_length)

lemma foldl_or_into_nth:
  "cell < length buf \<Longrightarrow>
     foldl or_into buf vs ! cell = foldl (\<lambda>acc v. acc OR byte_at v cell) (buf ! cell) vs"
  by (induction vs arbitrary: buf) (simp_all add: or_into_length or_into_nth)

lemma merge_discards_length:
  "length (merge_discards qcs to_use) = length (qc_discards (qcs (hd to_use)))"
  by (simp add: merge_discards_def foldl_or_into_length)

lemma merge_discards_nth:
  "cell < length (qc_discards (qcs (hd to_use))) \<Longrightarrow>
     merge_discards qcs to_use ! cell = discard_or qcs to_use cell"
proof -
  assume "cell < length (qc_discards (qcs (hd to_use)))"
  then have "merge_discards qcs to_use ! cell
      = foldl (\<lambda>acc v. acc OR byte_at v cell) 0 (map (\<lambda>u. qc_discards (qcs u)) to_use)"
    unfolding merge_discards_def by (subst foldl_or_into_nth) simp_all
  then show ?thesis by (simp add: discard_or_def foldl_map)
qed

lemma foldl_or_nonzero:
  "(foldl (\<lambda>acc m. acc OR f m) (a :: 8 word) ms \<noteq> 0) = (a \<noteq> 0 \<or> (\<exists>m \<in> set ms. f m \<noteq> 0))"
  by (induction ms arbitrary: a) (auto simp: or_eq_0_iff)

lemma discard_or_nonzero:
  "(discard_or qcs ms cell \<noteq> 0) = (\<exists>m \<in> set ms. byte_at (qc_discards (qcs m)) cell \<noteq> 0)"
  by (simp add: discard_or_def foldl_or_nonzero)

lemma filtering_recomputed_buffer:
  "filter_changed (snd (CellFilteringState_compute inp qcs a b c st)) \<Longrightarrow>
   discard_buffer (filter_cache (snd (CellFilteringState_compute inp qcs a b c st)))
     = (let to_use = find_usable_upstream_states qcs (in_use_flags a b c) in
        if length to_use > 0 then
          (if length to_use > 1 then Some (OwnedBuffer (merge_discards qcs to_use))
           else Some (ViewOf (hd to_use)))
        else None)"
  unfolding filtering_changed
  by (auto simp: CellFilteringState_compute_def Let_def raw_compute_matrix_def raw_compute_block_def
       split: prod.splits option.splits)

lemma filtering_unchanged_cache:
  "\<not> filter_changed (snd (CellFilteringState_compute inp qcs a b c st)) \<Longrightarrow>
   filter_cache (snd (CellFilteringState_compute inp qcs a b c st)) = filter_cache st
   \<and> filter_parameters (snd (CellFilteringState_compute inp qcs a b c st)) = filter_parameters st"
  unfolding filtering_changed
  by (auto simp: CellFilteringState_compute_def Let_def)


lemma labelling_flag:
  assumes "label_inputs_changed up \<or> label_markers_changed up
        \<or> human_references (labelling_parameters st) \<noteq> Some human
        \<or> mouse_references (labelling_parameters st) \<noteq> Some mouse
      \<longrightarrow> (\<forall>x. fst (relabel up human mouse (labelling_cache st)) \<noteq> Threw x)"
  shows "labelling_changed (snd (CellLabellingState_compute up human mouse st)) =
     (label_inputs_changed up \<or> label_markers_changed up
      \<or> human_references (labelling_parameters st) \<noteq> Some human
      \<or> mouse_references (labelling_parameters st) \<noteq> Some mouse)"
    and "CellLabellingState_compute up human mouse (st\<lparr>labelling_changed := flag\<rparr>)
       = CellLabellingState_compute up human mouse st"
  using assms
  by (auto simp: CellLabellingState_compute_def compare_arrays_eq split: prod.splits completion.splits)

lemma labelling_thrown:
  assumes "label_inputs_changed up \<or> label_markers_changed up
        \<or> human_references (labelling_parameters st) \<noteq> Some human
        \<or> mouse_references (labelling_parameters st) \<noteq> Some mouse"
    and "fst (relabel up human mouse (labelling_cache st)) = Threw e"
  shows "CellLabellingState_compute up human mouse st
     = (Some e, st\<lparr>labelling_cache := snd (relabel up human mouse (labelling_cache st))\<rparr>)"
  using assms
  by (auto simp: CellLabellingState_compute_def compare_arrays_eq split: prod.splits completion.splits)

text \<open>
  C1 as amended. Each class sets the flag by its own test, and the flag a call leaves does
  not depend on the flag it finds whenever the call gets as far as the assignment.
  CrisprPcaState, for parameters that can be destructured: true exactly when the CRISPR
  modality is valid, the normalization changed or one of the two parameters differs from
  the stored one (none is stored before the first compute), and the fetches and \<^verbatim>\<open>runPCA\<close>
  return; the filter state is not consulted. With \<^verbatim>\<open>undefined\<close> or \<^verbatim>\<open>null\<close> parameters
  line 81 throws before line 82 and the flag found stays. CellFilteringState: true exactly
  when the inputs changed, or one of the three flags differs from the stored one, or a
  valid quality control state that is in use changed. CellLabellingState: true exactly
  when the inputs or the markers changed or one of the two reference lists differs from
  the stored one, provided lines 199-295 do not throw (a rejected promise comes after the
  assignment of line 298); when they throw, the call throws and the flag found stays.
\<close>

theorem changed_flag_of_compute:
  "(js_get params ''num_pcs'' = Inr n_pcs \<and> js_get params ''block_method'' = Inr b_method \<longrightarrow>
      changed (snd (CrisprPcaState_compute up params st)) =
        (norm_valid up
         \<and> (norm_changed up
            \<or> n_pcs \<noteq> get_property (parameters st) ''num_pcs''
            \<or> b_method \<noteq> get_property (parameters st) ''block_method'')
         \<and> (\<exists>res. runPCA up n_pcs b_method = PcaReturns res))
      \<and> CrisprPcaState_compute up params (st\<lparr>changed := flag\<rparr>)
          = CrisprPcaState_compute up params st)
   \<and> (js_get params ''num_pcs'' = Inl e \<longrightarrow>
        CrisprPcaState_compute up params (st\<lparr>changed := flag\<rparr>) = (Some e, st\<lparr>changed := flag\<rparr>))
   \<and> filter_changed (snd (CellFilteringState_compute inp qcs a b c fs)) =
     (inputs_changed inp
      \<or> use_rna (filter_parameters fs) \<noteq> Some a
      \<or> use_adt (filter_parameters fs) \<noteq> Some b
      \<or> use_crispr (filter_parameters fs) \<noteq> Some c
      \<or> list_ex (\<lambda>u. qc_changed (qcs u)) (find_usable_upstream_states qcs (in_use_flags a b c)))
   \<and> CellFilteringState_compute inp qcs a b c (fs\<lparr>filter_changed := flag\<rparr>)
       = CellFilteringState_compute inp qcs a b c fs
   \<and> ((label_inputs_changed lup \<or> label_markers_changed lup
          \<or> human_references (labelling_parameters lst) \<noteq> Some human
          \<or> mouse_references (labelling_parameters lst) \<noteq> Some mouse
        \<longrightarrow> (\<forall>x. fst (relabel lup human mouse (labelling_cache lst)) \<noteq> Threw x)) \<longrightarrow>
       labelling_changed (snd (CellLabellingState_compute lup human mouse lst)) =
         (label_inputs_changed lup \<or> label_markers_changed lup
          \<or> human_references (labelling_parameters lst) \<noteq> Some human
          \<or> mouse_references (labelling_parameters lst) \<noteq> Some mouse)
       \<and> CellLabellingState_compute lup human mouse (lst\<lparr>labelling_changed := flag\<rparr>)
           = CellLabellingState_compute lup human mouse lst)
   \<and> ((label_inputs_changed lup \<or> label_markers_changed lup
          \<or> human_references (labelling_parameters lst) \<noteq> Some human
          \<or> mouse_references (labelling_parameters lst) \<noteq> Some mouse)
        \<and> fst (relabel lup human mouse (labelling_cache lst)) = Threw e' \<longrightarrow>
       CellLabellingState_compute lup human mouse (lst\<lparr>labelling_changed := flag\<rparr>)
         = (Some e', lst\<lparr>labelling_cache := snd (relabel lup human mouse (labelling_cache lst)),
                          labelling_changed := flag\<rparr>))"
proof (intro conjI impI)
  assume g: "js_get params ''num_pcs'' = Inr n_pcs \<and> js_get params ''block_method'' = Inr b_method"
  then show "changed (snd (CrisprPcaState_compute up params st)) =
        (norm_valid up
         \<and> (norm_changed up
            \<or> n_pcs \<noteq> get_property (parameters st) ''num_pcs''
            \<or> b_method \<noteq> get_property (parameters st) ''block_method'')
         \<and> (\<exists>res. runPCA up n_pcs b_method = PcaReturns res))"
    by (simp add: crispr_changed)
  from g show "CrisprPcaState_compute up params (st\<lparr>changed := flag\<rparr>)
          = CrisprPcaState_compute up params st"
    by (simp add: crispr_flag_not_carried)
next
  assume "js_get params ''num_pcs'' = Inl e"
  then show "CrisprPcaState_compute up params (st\<lparr>changed := flag\<rparr>) = (Some e, st\<lparr>changed := flag\<rparr>)"
    by (rule crispr_destructuring_throws)
next
  show "filter_changed (snd (CellFilteringState_compute inp qcs a b c fs)) =
     (inputs_changed inp
      \<or> use_rna (filter_parameters fs) \<noteq> Some a
      \<or> use_adt (filter_parameters fs) \<noteq> Some b
      \<or> use_crispr (filter_parameters fs) \<noteq> Some c
      \<or> list_ex (\<lambda>u. qc_changed (qcs u)) (find_usable_upstream_states qcs (in_use_flags a b c)))"
    by (rule filtering_changed)
next
  show "CellFilteringState_compute inp qcs a b c (fs\<lparr>filter_changed := flag\<rparr>)
       = CellFilteringState_compute inp qcs a b c fs"
    by (rule filtering_flag_not_carried)
next
  assume h: "label_inputs_changed lup \<or> label_markers_changed lup
          \<or> human_references (labelling_parameters lst) \<noteq> Some human
          \<or> mouse_references (labelling_parameters lst) \<noteq> Some mouse
        \<longrightarrow> (\<forall>x. fst (relabel lup human mouse (labelling_cache lst)) \<noteq> Threw x)"
  from labelling_flag(1) [OF h]
  show "labelling_changed (snd (CellLabellingState_compute lup human mouse lst)) =
         (label_inputs_changed lup \<or> label_markers_changed lup
          \<or> human_references (labelling_parameters lst) \<noteq> Some human
          \<or> mouse_references (labelling_parameters lst) \<noteq> Some mouse)" .
  from labelling_flag(2) [OF h]
  show "CellLabellingState_compute lup human mouse (lst\<lparr>labelling_changed := flag\<rparr>)
           = CellLabellingState_compute lup human mouse lst" .
next
  assume h: "(label_inputs_changed lup \<or> label_markers_changed lup
          \<or> human_references (labelling_parameters lst) \<noteq> Some human
          \<or> mouse_references (labelling_parameters lst) \<noteq> Some mouse)
        \<and> fst (relabel lup human mouse (labelling_cache lst)) = Threw e'"
  then show "CellLabellingState_compute lup human mouse (lst\<lparr>labelling_changed := flag\<rparr>)
         = (Some e', lst\<lparr>labelling_cache := snd (relabel lup human mouse (labelling_cache lst)),
                          labelling_changed := flag\<rparr>)"
    using labelling_thrown [where up = lup and human = human and mouse = mouse
        and st = "lst\<lparr>labelling_changed := flag\<rparr>" and e = e']
    by simp
qed

theorem changed_flag_of_compute_witness:
  "changed (snd (CrisprPcaState_compute
       \<lparr> norm_changed = False, norm_valid = True, runPCA = runPCA_returns \<rparr> pca_request new_state))
   \<and> \<not> changed (snd (CrisprPcaState_compute
       \<lparr> norm_changed = False, norm_valid = True, runPCA = runPCA_returns \<rparr> pca_request pca_computed))
   \<and> CrisprPcaState_compute
       \<lparr> norm_changed = True, norm_valid = True, runPCA = runPCA_returns \<rparr> JUndefined pca_computed
       = (Some (TypeError ''num_pcs''), pca_computed)
   \<and> changed pca_computed
   \<and> filter_changed (snd (CellFilteringState_compute four_cells_inputs four_cells_qc True True True
       new_CellFilteringState))
   \<and> labelling_changed (snd (CellLabellingState_compute quiet_labelling [''BlueprintEncode''] [] new_labelling))
   \<and> CellLabellingState_compute failing_features [''BlueprintEncode''] []
         (new_labelling\<lparr>labelling_changed := True\<rparr>)
       = (Some (Error ''fetchGenes''), new_labelling\<lparr>labelling_changed := True\<rparr>)
   \<and> fst (CellLabellingState_compute failing_download [''BlueprintEncode''] [] new_labelling)
       = Some (Error ''fetch'')
   \<and> labelling_changed (snd (CellLabellingState_compute failing_download [''BlueprintEncode''] [] new_labelling))"
proof -
  note crispr = changed_flag_of_compute [where up = "\<lparr> norm_changed = False, norm_valid = True, runPCA = runPCA_returns \<rparr>"
      and params = pca_request and n_pcs = "JNumber 20" and b_method = "JString ''none''"
      and inp = four_cells_inputs and qcs = four_cells_qc and a = True and b = True and c = True
      and fs = new_CellFilteringState
      and lup = quiet_labelling and human = "[''BlueprintEncode'']" and mouse = "[]" and lst = new_labelling]
  note thrown = changed_flag_of_compute [where up = "\<lparr> norm_changed = True, norm_valid = True, runPCA = runPCA_returns \<rparr>"
      and params = JUndefined and st = pca_computed and flag = True and e = "TypeError ''num_pcs''"
      and lup = failing_features and human = "[''BlueprintEncode'']" and mouse = "[]" and lst = new_labelling
      and e' = "Error ''fetchGenes''"]
  note rejected = changed_flag_of_compute [where lup = failing_download and human = "[''BlueprintEncode'']"
      and mouse = "[]" and lst = new_labelling]
  have g: "js_get pca_request ''num_pcs'' = Inr (JNumber 20)"
    "js_get pca_request ''block_method'' = Inr (JString ''none'')"
    by (simp_all add: pca_request_def get_property_def)
  from crispr [where st = new_state] g
  have c1: "changed (snd (CrisprPcaState_compute
       \<lparr> norm_changed = False, norm_valid = True, runPCA = runPCA_returns \<rparr> pca_request new_state))"
    by (simp add: new_state_def get_property_def runPCA_returns_def)
  from crispr [where st = pca_computed] g
  have c2: "\<not> changed (snd (CrisprPcaState_compute
       \<lparr> norm_changed = False, norm_valid = True, runPCA = runPCA_returns \<rparr> pca_request pca_computed))"
    by (simp add: pca_computed_def get_property_def)
  have pc: "changed pca_computed" "pca_computed\<lparr>changed := True\<rparr> = pca_computed"
    by (simp_all add: pca_computed_def)
  from thrown pc
  have c3: "CrisprPcaState_compute
       \<lparr> norm_changed = True, norm_valid = True, runPCA = runPCA_returns \<rparr> JUndefined pca_computed
       = (Some (TypeError ''num_pcs''), pca_computed)"
    by simp
  from crispr have f1: "filter_changed (snd (CellFilteringState_compute four_cells_inputs four_cells_qc True True True
       new_CellFilteringState))"
    by (simp add: four_cells_inputs_def)
  from crispr have l1: "labelling_changed (snd (CellLabellingState_compute quiet_labelling [''BlueprintEncode''] [] new_labelling))"
    by (simp add: quiet_labelling_def new_labelling_def)
  from thrown have l2: "CellLabellingState_compute failing_features [''BlueprintEncode''] []
         (new_labelling\<lparr>labelling_changed := True\<rparr>)
       = (Some (Error ''fetchGenes''), new_labelling\<lparr>labelling_changed := True\<rparr>)"
    by (simp add: failing_features_def new_labelling_def)
  from rejected have l3: "labelling_changed (snd (CellLabellingState_compute failing_download [''BlueprintEncode''] [] new_labelling))"
    by (simp add: failing_download_def new_labelling_def)
  have l4: "fst (CellLabellingState_compute failing_download [''BlueprintEncode''] [] new_labelling)
       = Some (Error ''fetch'')"
    by (simp add: CellLabellingState_compute_def failing_download_def new_labelling_def compare_arrays_def)
  from c1 c2 c3 pc(1) f1 l1 l2 l3 l4 show ?thesis by simp
qed

text \<open>
  C1 as stated fails: on a new CrisprPcaState whose normalization is not valid (no CRISPR
  modality), the first \<^verbatim>\<open>compute\<close> leaves \<^verbatim>\<open>changed = false\<close> although the upstream flag
  is true, the parameters differ from the stored ones and the step has never computed.
\<close>

theorem invalid_modality_stays_unchanged:
  "\<not> changed (snd (CrisprPcaState_compute
       \<lparr> norm_changed = True, norm_valid = False, runPCA = runPCA_returns \<rparr> pca_request new_state))
   \<and> norm_changed \<lparr> norm_changed = True, norm_valid = False, runPCA = runPCA_returns \<rparr>
   \<and> get_property (js_props pca_request) ''num_pcs'' \<noteq> get_property (parameters new_state) ''num_pcs''
   \<and> results new_state = None"
  by (simp add: CrisprPcaState_compute_def pca_request_def new_state_def get_property_def
      store_pca_parameters_def js_props_def)









lemma four_cells_to_use:
  "find_usable_upstream_states four_cells_qc (in_use_flags True True True) = [RNA, ADT]"
  "find_usable_upstream_states four_cells_qc (in_use_flags True False True) = [RNA]"
  "find_usable_upstream_states four_cells_qc (in_use_flags False False True) = []"
  by (simp_all add: find_usable_upstream_states_def findValidUpstreamStates_def four_cells_qc_def
      in_use_flags_def)

lemma four_cells_merge: "merge_discards four_cells_qc [RNA, ADT] = [0, 1, 1, 0]"
  by (simp add: merge_discards_def four_cells_qc_def or_into_def upt_rec)



lemma removes_cell_recomputed:
  assumes ch: "filter_changed (snd (CellFilteringState_compute inp qcs a b c st))"
    and len: "\<forall>u \<in> set (find_usable_upstream_states qcs (in_use_flags a b c)). cell < length (qc_discards (qcs u))"
  shows "removes_cell qcs (snd (CellFilteringState_compute inp qcs a b c st)) cell
     = (\<exists>u \<in> set (find_usable_upstream_states qcs (in_use_flags a b c)). qc_discards (qcs u) ! cell \<noteq> 0)"
proof (cases "find_usable_upstream_states qcs (in_use_flags a b c)")
  case Nil
  with filtering_recomputed_buffer [OF ch] show ?thesis
    by (simp add: removes_cell_def)
next
  case (Cons k ks)
  note to_use = Cons
  show ?thesis
  proof (cases ks)
    case Nil
    with to_use filtering_recomputed_buffer [OF ch] len show ?thesis
      by (simp add: removes_cell_def array_bytes_def byte_at_def)
  next
    case (Cons k' ks')
    with to_use len have "cell < length (qc_discards (qcs (hd (k # k' # ks'))))"
      by simp
    then have "byte_at (merge_discards qcs (k # k' # ks')) cell = discard_or qcs (k # k' # ks') cell"
      by (simp add: byte_at_def merge_discards_length merge_discards_nth del: hd_conv_nth)
    moreover have "(\<exists>m \<in> set (k # k' # ks'). byte_at (qc_discards (qcs m)) cell \<noteq> 0)
        = (\<exists>m \<in> set (k # k' # ks'). qc_discards (qcs m) ! cell \<noteq> 0)"
      using len to_use Cons by (auto simp: byte_at_def)
    ultimately show ?thesis
      using to_use Cons filtering_recomputed_buffer [OF ch]
      by (simp add: removes_cell_def array_bytes_def discard_or_nonzero)
  qed
qed

text \<open>
  C2. Whenever \<^verbatim>\<open>CellFilteringState.compute\<close> recomputes (it leaves \<^verbatim>\<open>changed\<close> set, as
  the first compute of a new state always does), then: with exactly one modality in use
  (valid, and switched on by its parameter) the combined vector is a view on that
  modality's discard vector, not a buffer of its own, and reads that vector's memory;
  with more than one it is a buffer of the length of the first vector whose byte for each
  cell is the OR of the bytes of the modalities in use; and for every cell of the dataset
  filtering removes the cell if and only if some modality in use discards it. A call that
  leaves \<^verbatim>\<open>changed\<close> clear keeps the cache of the last recomputation as it is.
\<close>

theorem discard_merge_correct:
  "(filter_changed (snd (CellFilteringState_compute inp qcs a b c st)) \<longrightarrow>
      (\<forall>k. find_usable_upstream_states qcs (in_use_flags a b c) = [k] \<longrightarrow>
         discard_buffer (filter_cache (snd (CellFilteringState_compute inp qcs a b c st))) = Some (ViewOf k)
         \<and> \<not> is_owned (ViewOf k)
         \<and> array_bytes qcs (ViewOf k) = qc_discards (qcs k))
    \<and> (length (find_usable_upstream_states qcs (in_use_flags a b c)) > 1 \<longrightarrow>
         (\<exists>bytes. discard_buffer (filter_cache (snd (CellFilteringState_compute inp qcs a b c st)))
                    = Some (OwnedBuffer bytes)
            \<and> length bytes = length (qc_discards (qcs (hd (find_usable_upstream_states qcs (in_use_flags a b c)))))
            \<and> (\<forall>cell < length bytes.
                  bytes ! cell = discard_or qcs (find_usable_upstream_states qcs (in_use_flags a b c)) cell)))
    \<and> (\<forall>cell. (\<forall>u \<in> set (find_usable_upstream_states qcs (in_use_flags a b c)).
                   cell < length (qc_discards (qcs u))) \<longrightarrow>
         removes_cell qcs (snd (CellFilteringState_compute inp qcs a b c st)) cell
           = (\<exists>u \<in> set (find_usable_upstream_states qcs (in_use_flags a b c)).
                qc_discards (qcs u) ! cell \<noteq> 0)))
   \<and> (\<not> filter_changed (snd (CellFilteringState_compute inp qcs a b c st)) \<longrightarrow>
        filter_cache (snd (CellFilteringState_compute inp qcs a b c st)) = filter_cache st)
   \<and> filter_changed (snd (CellFilteringState_compute inp qcs a b c new_CellFilteringState))"
proof (intro conjI impI allI)
  fix k
  assume ch: "filter_changed (snd (CellFilteringState_compute inp qcs a b c st))"
    and one: "find_usable_upstream_states qcs (in_use_flags a b c) = [k]"
  from filtering_recomputed_buffer [OF ch] one
  show "discard_buffer (filter_cache (snd (CellFilteringState_compute inp qcs a b c st))) = Some (ViewOf k)"
    by simp
  show "\<not> is_owned (ViewOf k)" by (simp add: is_owned_def)
  show "array_bytes qcs (ViewOf k) = qc_discards (qcs k)" by (simp add: array_bytes_def)
next
  assume ch: "filter_changed (snd (CellFilteringState_compute inp qcs a b c st))"
    and many: "1 < length (find_usable_upstream_states qcs (in_use_flags a b c))"
  from filtering_recomputed_buffer [OF ch] many
  have "discard_buffer (filter_cache (snd (CellFilteringState_compute inp qcs a b c st)))
      = Some (OwnedBuffer (merge_discards qcs (find_usable_upstream_states qcs (in_use_flags a b c))))"
    by (cases "find_usable_upstream_states qcs (in_use_flags a b c)") (simp_all add: Let_def)
  then show "\<exists>bytes. discard_buffer (filter_cache (snd (CellFilteringState_compute inp qcs a b c st)))
                    = Some (OwnedBuffer bytes)
            \<and> length bytes = length (qc_discards (qcs (hd (find_usable_upstream_states qcs (in_use_flags a b c)))))
            \<and> (\<forall>cell < length bytes.
                  bytes ! cell = discard_or qcs (find_usable_upstream_states qcs (in_use_flags a b c)) cell)"
    by (simp add: merge_discards_length merge_discards_nth)
next
  fix cell
  assume "filter_changed (snd (CellFilteringState_compute inp qcs a b c st))"
    and "\<forall>u \<in> set (find_usable_upstream_states qcs (in_use_flags a b c)). cell < length (qc_discards (qcs u))"
  then show "removes_cell qcs (snd (CellFilteringState_compute inp qcs a b c st)) cell
           = (\<exists>u \<in> set (find_usable_upstream_states qcs (in_use_flags a b c)).
                qc_discards (qcs u) ! cell \<noteq> 0)"
    by (rule removes_cell_recomputed)
next
  assume "\<not> filter_changed (snd (CellFilteringState_compute inp qcs a b c st))"
  then show "filter_cache (snd (CellFilteringState_compute inp qcs a b c st)) = filter_cache st"
    using filtering_unchanged_cache by blast
next
  show "filter_changed (snd (CellFilteringState_compute inp qcs a b c new_CellFilteringState))"
    by (simp add: filtering_changed new_CellFilteringState_def)
qed


theorem discard_merge_correct_witness:
  "filter_changed (snd (CellFilteringState_compute four_cells_inputs four_cells_qc True True True
       new_CellFilteringState))
   \<and> discard_buffer (filter_cache (snd (CellFilteringState_compute four_cells_inputs four_cells_qc
       True True True new_CellFilteringState))) = Some (OwnedBuffer [0, 1, 1, 0])
   \<and> removes_cell four_cells_qc (snd (CellFilteringState_compute four_cells_inputs four_cells_qc
       True True True new_CellFilteringState)) 2
   \<and> \<not> removes_cell four_cells_qc (snd (CellFilteringState_compute four_cells_inputs four_cells_qc
       True True True new_CellFilteringState)) 3
   \<and> discard_buffer (filter_cache (snd (CellFilteringState_compute four_cells_inputs four_cells_qc
       True False True new_CellFilteringState))) = Some (ViewOf RNA)"
proof -
  note two = discard_merge_correct [where inp = four_cells_inputs and qcs = four_cells_qc
      and a = True and b = True and c = True and st = new_CellFilteringState]
  note one = discard_merge_correct [where inp = four_cells_inputs and qcs = four_cells_qc
      and a = True and b = False and c = True and st = new_CellFilteringState]
  from two have ch2: "filter_changed (snd (CellFilteringState_compute four_cells_inputs four_cells_qc
       True True True new_CellFilteringState))"
    by simp
  from one have ch1: "filter_changed (snd (CellFilteringState_compute four_cells_inputs four_cells_qc
       True False True new_CellFilteringState))"
    by simp
  have owned: "discard_buffer (filter_cache (snd (CellFilteringState_compute four_cells_inputs
       four_cells_qc True True True new_CellFilteringState))) = Some (OwnedBuffer [0, 1, 1, 0])"
    using filtering_recomputed_buffer [OF ch2] by (simp add: four_cells_to_use four_cells_merge)
  from two ch2 have r2: "removes_cell four_cells_qc (snd (CellFilteringState_compute four_cells_inputs
       four_cells_qc True True True new_CellFilteringState)) 2"
    and r3: "\<not> removes_cell four_cells_qc (snd (CellFilteringState_compute four_cells_inputs
       four_cells_qc True True True new_CellFilteringState)) 3"
    by (simp_all add: four_cells_to_use four_cells_qc_def)
  from one ch1 have view: "discard_buffer (filter_cache (snd (CellFilteringState_compute four_cells_inputs
       four_cells_qc True False True new_CellFilteringState))) = Some (ViewOf RNA)"
    by (simp add: four_cells_to_use)
  from ch2 owned r2 r3 view show ?thesis by simp
qed

text \<open>
  C7. When \<^verbatim>\<open>compute\<close> recomputes with no modality in use, the cache has no
  \<^verbatim>\<open>discard_buffer\<close> (\<^verbatim>\<open>fetchDiscards()\<close> is null and no cell is removed) instead of a
  vector of zeros. \<^verbatim>\<open>serialize\<close> writes the dataset "discards" into the results if and
  only if the cache has a \<^verbatim>\<open>discard_buffer\<close> that is a buffer of its own and not a view,
  and then it writes that buffer's bytes.
\<close>

theorem absent_discards_and_serialize:
  "(filter_changed (snd (CellFilteringState_compute inp qcs a b c st))
      \<and> find_usable_upstream_states qcs (in_use_flags a b c) = [] \<longrightarrow>
        discard_buffer (filter_cache (snd (CellFilteringState_compute inp qcs a b c st))) = None
        \<and> fetchDiscards (snd (CellFilteringState_compute inp qcs a b c st)) = None
        \<and> (\<forall>cell. \<not> removes_cell qcs (snd (CellFilteringState_compute inp qcs a b c st)) cell))
   \<and> ((''discards'' \<in> fst ` set (result_datasets (CellFilteringState_serialize sx)))
        = (\<exists>d. discard_buffer (filter_cache sx) = Some d \<and> is_owned d))
   \<and> (\<forall>bytes. discard_buffer (filter_cache sx) = Some (OwnedBuffer bytes) \<longrightarrow>
        result_datasets (CellFilteringState_serialize sx) = [(''discards'', bytes)])"
proof (intro conjI impI allI)
  assume h: "filter_changed (snd (CellFilteringState_compute inp qcs a b c st))
      \<and> find_usable_upstream_states qcs (in_use_flags a b c) = []"
  then have ch: "filter_changed (snd (CellFilteringState_compute inp qcs a b c st))" by simp
  from filtering_recomputed_buffer [OF ch] h
  show none: "discard_buffer (filter_cache (snd (CellFilteringState_compute inp qcs a b c st))) = None"
    by simp
  then show "fetchDiscards (snd (CellFilteringState_compute inp qcs a b c st)) = None"
    by (simp add: fetchDiscards_def)
  fix cell
  from none show "\<not> removes_cell qcs (snd (CellFilteringState_compute inp qcs a b c st)) cell"
    by (simp add: removes_cell_def)
next
  show "(''discards'' \<in> fst ` set (result_datasets (CellFilteringState_serialize sx)))
        = (\<exists>d. discard_buffer (filter_cache sx) = Some d \<and> is_owned d)"
  proof (cases "discard_buffer (filter_cache sx)")
    case None
    then show ?thesis by (simp add: CellFilteringState_serialize_def)
  next
    case (Some d)
    then show ?thesis by (cases d) (simp_all add: CellFilteringState_serialize_def is_owned_def)
  qed
next
  fix bytes
  assume "discard_buffer (filter_cache sx) = Some (OwnedBuffer bytes)"
  then show "result_datasets (CellFilteringState_serialize sx) = [(''discards'', bytes)]"
    by (simp add: CellFilteringState_serialize_def)
qed

theorem absent_discards_and_serialize_witness:
  "filter_changed (snd (CellFilteringState_compute four_cells_inputs four_cells_qc False False True
       new_CellFilteringState))
   \<and> find_usable_upstream_states four_cells_qc (in_use_flags False False True) = []
   \<and> discard_buffer (filter_cache (snd (CellFilteringState_compute four_cells_inputs four_cells_qc
       False False True new_CellFilteringState))) = None
   \<and> result_datasets (CellFilteringState_serialize (snd (CellFilteringState_compute four_cells_inputs
       four_cells_qc False False True new_CellFilteringState))) = []
   \<and> result_datasets (CellFilteringState_serialize (snd (CellFilteringState_compute four_cells_inputs
       four_cells_qc True True True new_CellFilteringState))) = [(''discards'', [0, 1, 1, 0])]
   \<and> result_datasets (CellFilteringState_serialize (snd (CellFilteringState_compute four_cells_inputs
       four_cells_qc True False True new_CellFilteringState))) = []"
proof -
  note zero = absent_discards_and_serialize [where inp = four_cells_inputs and qcs = four_cells_qc
      and a = False and b = False and c = True and st = new_CellFilteringState
      and sx = "snd (CellFilteringState_compute four_cells_inputs four_cells_qc False False True
         new_CellFilteringState)"]
  note two = absent_discards_and_serialize [where inp = four_cells_inputs and qcs = four_cells_qc
      and a = False and b = False and c = True and st = new_CellFilteringState
      and sx = "snd (CellFilteringState_compute four_cells_inputs four_cells_qc True True True
         new_CellFilteringState)"]
  have ch: "\<And>a b c. filter_changed (snd (CellFilteringState_compute four_cells_inputs four_cells_qc a b c
       new_CellFilteringState))"
    by (simp add: filtering_changed new_CellFilteringState_def)
  have owned: "discard_buffer (filter_cache (snd (CellFilteringState_compute four_cells_inputs
       four_cells_qc True True True new_CellFilteringState))) = Some (OwnedBuffer [0, 1, 1, 0])"
    using filtering_recomputed_buffer [OF ch, of True True True]
    by (simp add: four_cells_to_use four_cells_merge)
  have view: "discard_buffer (filter_cache (snd (CellFilteringState_compute four_cells_inputs
       four_cells_qc True False True new_CellFilteringState))) = Some (ViewOf RNA)"
    using filtering_recomputed_buffer [OF ch, of True False True]
    by (simp add: four_cells_to_use)
  from zero ch have none: "discard_buffer (filter_cache (snd (CellFilteringState_compute four_cells_inputs
       four_cells_qc False False True new_CellFilteringState))) = None"
    by (simp add: four_cells_to_use)
  from two owned have s2: "result_datasets (CellFilteringState_serialize (snd (CellFilteringState_compute
       four_cells_inputs four_cells_qc True True True new_CellFilteringState))) = [(''discards'', [0, 1, 1, 0])]"
    by simp
  from none have s0: "result_datasets (CellFilteringState_serialize (snd (CellFilteringState_compute
       four_cells_inputs four_cells_qc False False True new_CellFilteringState))) = []"
    by (simp add: CellFilteringState_serialize_def)
  from view have s1: "result_datasets (CellFilteringState_serialize (snd (CellFilteringState_compute
       four_cells_inputs four_cells_qc True False True new_CellFilteringState))) = []"
    by (simp add: CellFilteringState_serialize_def)
  from ch none s0 s1 s2 show ?thesis by (simp add: four_cells_to_use)
qed


section \<open>Theorems: the orchestrator\<close>

lemma js_props_object [simp]: "js_props (JObject props) = props"
  by (simp add: js_props_def)





























lemma inputs_settled_flag [simp]: "inputs_settled d x (s\<lparr>changed := c\<rparr>) = inputs_settled d x s"
  by (simp add: inputs_settled_def)






lemma filter_settled_flag [simp]: "filter_settled args (s\<lparr>changed := c\<rparr>) = filter_settled args s"
  by (simp add: filter_settled_def)




lemma crispr_settled_flag [simp]: "crispr_settled x (s\<lparr>changed := c\<rparr>) = crispr_settled x s"
  by (simp add: crispr_settled_def)






lemma arguments_in_use_flags:
  "arguments_in_use (JBoolean a) (JBoolean b) (JBoolean c) = in_use_flags a b c"
  by (rule ext) (simp add: arguments_in_use_def in_use_flags_def split: modality.splits)

lemma filtering_flags_agree:
  assumes "get_property (parameters s) ''use_rna''
             = (case use_rna (filter_parameters st) of None \<Rightarrow> JUndefined | Some x \<Rightarrow> JBoolean x)"
    and "get_property (parameters s) ''use_adt''
             = (case use_adt (filter_parameters st) of None \<Rightarrow> JUndefined | Some x \<Rightarrow> JBoolean x)"
    and "get_property (parameters s) ''use_crispr''
             = (case use_crispr (filter_parameters st) of None \<Rightarrow> JUndefined | Some x \<Rightarrow> JBoolean x)"
  shows "changed (snd (CellFilteringState_compute_js
            \<lparr> filter_inputs_changed = inputs_changed inp, filter_qc = qcs, refilter = rf \<rparr>
            [JBoolean a, JBoolean b, JBoolean c] s))
         = filter_changed (snd (CellFilteringState_compute inp qcs a b c st))"
  using assms unfolding filtering_changed
  by (auto simp: CellFilteringState_compute_js_def Let_def argument_def arguments_in_use_flags
        split: prod.splits option.splits)














section \<open>Theorems: a run after loadAnalysis\<close>









section \<open>Theorems: the clustering switch\<close>





end
